theory Spec2Isabelle
  imports Main "HOL-Library.Word"
begin

section \<open>Shared vocabulary\<close>

text \<open>
  The example network provider of libweave (\<^verbatim>\<open>network_manager.cc\<close>) and the stream
  copier (\<^verbatim>\<open>streams.cc\<close>) are embedded as HOL functions over explicit state. Client
  continuations (\<^verbatim>\<open>base::Closure\<close>, \<^verbatim>\<open>base::Callback\<close>) are opaque to the code: it only
  stores, posts and runs them. They are named by numbers, and running one is recorded in
  a log of the state it belongs to.
\<close>

type_synonym closure = nat
type_synonym listener = nat

text \<open>
  A call either returns, or the process dies in a failed \<^verbatim>\<open>CHECK\<close> (fatal in every build
  of the base library), or, inside \<^verbatim>\<open>ForkCmd\<close>, the call finds itself in the forked child,
  whose image \<^verbatim>\<open>execvp\<close> replaces, or control flows off the end of a function that has to
  return a value, after which the behaviour of the program is undefined (the optimised
  build crashes there).
\<close>

datatype 'a outcome = Returns 'a | Check_failed | Child_exec | Undefined_behaviour

text \<open>\<^verbatim>\<open>weave::Error\<close>: a chain of (domain, code, message), the newest first.\<close>

record weave_error =
  err_domain :: string
  err_code :: string
  err_message :: string

type_synonym ErrorPtr = "weave_error list"

text \<open>
  \<^verbatim>\<open>Error::AddTo(ErrorPtr* error, location, domain, code, message)\<close>. The out-parameter is
  a pointer that may be null: \<open>None\<close> is the null pointer, through which nothing is written.
\<close>

definition Error_AddTo :: "ErrorPtr option \<Rightarrow> string \<Rightarrow> string \<Rightarrow> string \<Rightarrow> ErrorPtr option" where
  "Error_AddTo error domain code msg =
     map_option (\<lambda>chain. \<lparr>err_domain = domain, err_code = code, err_message = msg\<rparr> # chain) error"

section \<open>The task runner\<close>

text \<open>
  Modelled from the spec: \<^verbatim>\<open>TaskRunner\<close> is declared in \<^verbatim>\<open>weave/task_runner.h\<close> and
  implemented outside the two source files. The spec gives it as a single-threaded run
  loop that accepts (delay, callback) and executes callbacks after their delay has
  elapsed, first in, first out by deadline. Time is in milliseconds. The queue is kept
  ordered by due time; a task posted with a due time equal to one already queued goes
  behind it.
\<close>

record 't task_runner =
  clock_ms :: nat
  pending :: "(nat \<times> 't) list"

fun enqueue :: "nat \<times> 't \<Rightarrow> (nat \<times> 't) list \<Rightarrow> (nat \<times> 't) list" where
  "enqueue e [] = [e]"
| "enqueue e (x # q) = (if fst e < fst x then e # x # q else x # enqueue e q)"

definition PostDelayedTask :: "'t \<Rightarrow> nat \<Rightarrow> 't task_runner \<Rightarrow> 't task_runner" where
  "PostDelayedTask t delay r = r\<lparr>pending := enqueue (clock_ms r + delay, t) (pending r)\<rparr>"

text \<open>
  The run loop takes the task that is due first. It starts the task no earlier than its
  due time; \<open>lag\<close> is how much later than that the task really starts.
\<close>

definition next_task :: "nat \<Rightarrow> 't task_runner \<Rightarrow> ('t \<times> 't task_runner) option" where
  "next_task lag r =
     (case pending r of
        [] \<Rightarrow> None
      | (due, t) # rest \<Rightarrow> Some (t, r\<lparr>clock_ms := max (clock_ms r) due + lag, pending := rest\<rparr>))"

section \<open>The secure transport stream (SSLStream)\<close>

subsection \<open>The TLS primitive\<close>

text \<open>
  OpenSSL is outside the repository. Its answers are parameters of the model: the \<open>k\<close>-th
  call of a primitive (counted from 0) gets the \<open>k\<close>-th answer. The two error codes are
  the values of \<^verbatim>\<open>openssl/ssl.h\<close>.
\<close>

definition SSL_ERROR_WANT_READ :: int where
  "SSL_ERROR_WANT_READ = 2"

definition SSL_ERROR_WANT_WRITE :: int where
  "SSL_ERROR_WANT_WRITE = 3"

text \<open>
  What \<^verbatim>\<open>Init\<close> sees for one end point: whether \<^verbatim>\<open>SSL_CTX_new\<close> and \<^verbatim>\<open>BIO_new_connect\<close>
  return an object, the result of each \<^verbatim>\<open>BIO_do_connect\<close> with the \<^verbatim>\<open>BIO_should_retry\<close> that
  follows it, and the result of each \<^verbatim>\<open>SSL_do_handshake\<close> with the \<^verbatim>\<open>SSL_get_error\<close> that
  follows it.
\<close>

record tls_primitive =
  SSL_CTX_new_ok :: bool
  BIO_new_connect_ok :: bool
  BIO_do_connect :: "nat \<Rightarrow> int"
  BIO_should_retry :: "nat \<Rightarrow> bool"
  SSL_do_handshake :: "nat \<Rightarrow> int"
  SSL_get_error_handshake :: "nat \<Rightarrow> int"

subsection \<open>Init\<close>

text \<open>
  A \<^verbatim>\<open>std::string\<close> may hold NUL characters; read through \<^verbatim>\<open>c_str()\<close> as a C string it ends
  at the first of them.
\<close>

definition c_str :: "string \<Rightarrow> string" where
  "c_str x = takeWhile (\<lambda>c. c \<noteq> CHR 0x00) x"

text \<open>
  \<^verbatim>\<open>snprintf(end_point, 255, "%s:%u", host.c_str(), port)\<close>: the port is a \<^verbatim>\<open>uint16_t\<close>,
  printed in decimal, and at most 254 characters are kept.
\<close>

fun decimal :: "nat \<Rightarrow> string" where
  "decimal n = (if n < 10 then [char_of (48 + n)] else decimal (n div 10) @ [char_of (48 + n mod 10)])"

definition end_point :: "string \<Rightarrow> 16 word \<Rightarrow> string" where
  "end_point host port = take 254 (c_str host @ '':'' @ decimal (unat port))"

text \<open>
  The connect loop: \<open>k\<close> calls of \<^verbatim>\<open>BIO_do_connect\<close> have failed so far, each followed by
  \<^verbatim>\<open>sleep(1)\<close>. The loop may go on for ever (\<open>None\<close>); when it ends it gives the number of
  sleeps.
\<close>

partial_function (option) connect_loop :: "tls_primitive \<Rightarrow> nat \<Rightarrow> nat outcome option" where
  "connect_loop tls k =
     (if BIO_do_connect tls k \<noteq> 1 then
        (if \<not> BIO_should_retry tls k then Some Check_failed
         else connect_loop tls (Suc k))
      else Some (Returns k))"

text \<open>
  The handshake loop, with the source's tests: \<^verbatim>\<open>if (res)\<close> on the result of
  \<^verbatim>\<open>SSL_do_handshake\<close>, then \<^verbatim>\<open>res != SSL_ERROR_WANT_READ || res != SSL_ERROR_WANT_WRITE\<close>
  on the error code. It gives the value \<^verbatim>\<open>Init\<close> returns and the number of sleeps.
\<close>

partial_function (option) handshake_loop :: "tls_primitive \<Rightarrow> nat \<Rightarrow> (bool \<times> nat) option" where
  "handshake_loop tls k =
     (if SSL_do_handshake tls k \<noteq> 0 then Some (True, k)
      else if SSL_get_error_handshake tls k \<noteq> SSL_ERROR_WANT_READ
            \<or> SSL_get_error_handshake tls k \<noteq> SSL_ERROR_WANT_WRITE then Some (False, k)
      else handshake_loop tls (Suc k))"

text \<open>
  \<^verbatim>\<open>Init(host, port)\<close>: the value returned and the seconds slept, \<open>None\<close> when a loop never
  ends. \<open>tls\<close> gives the primitive's answers for each end point.
\<close>

definition Init :: "(string \<Rightarrow> tls_primitive) \<Rightarrow> string \<Rightarrow> 16 word \<Rightarrow> (bool \<times> nat) outcome option" where
  "Init tls host port =
     (let stream_bio = tls (end_point host port) in
      if \<not> SSL_CTX_new_ok stream_bio then Some Check_failed
      else if \<not> BIO_new_connect_ok stream_bio then Some Check_failed
      else
        (case connect_loop stream_bio 0 of
           None \<Rightarrow> None
         | Some Check_failed \<Rightarrow> Some Check_failed
         | Some Child_exec \<Rightarrow> Some Child_exec
         | Some Undefined_behaviour \<Rightarrow> Some Undefined_behaviour
         | Some (Returns slept) \<Rightarrow>
             (case handshake_loop stream_bio 0 of
                None \<Rightarrow> None
              | Some (res, slept') \<Rightarrow> Some (Returns (res, slept + slept')))))"

subsection \<open>Weak pointers\<close>

text \<open>
  Modelled from the spec: \<^verbatim>\<open>base::WeakPtrFactory\<close> belongs to the base library, outside the
  two source files. The spec: cancellation invalidates a weak binding to the owning object,
  and already-scheduled callbacks referencing an invalidated binding are silently dropped.
  A weak pointer carries the number of the factory's flag at the time it was handed out;
  invalidating retires that flag, and the next weak pointer gets a fresh one.
\<close>

record weak_ptr_factory =
  flag :: nat
  handed_out :: bool

type_synonym weak_ptr = nat

definition GetWeakPtr :: "weak_ptr_factory \<Rightarrow> weak_ptr \<times> weak_ptr_factory" where
  "GetWeakPtr f = (flag f, f\<lparr>handed_out := True\<rparr>)"

definition InvalidateWeakPtrs :: "weak_ptr_factory \<Rightarrow> weak_ptr_factory" where
  "InvalidateWeakPtrs f = (if handed_out f then \<lparr>flag = Suc (flag f), handed_out = False\<rparr> else f)"

definition weak_ptr_valid :: "weak_ptr_factory \<Rightarrow> weak_ptr \<Rightarrow> bool" where
  "weak_ptr_valid f w = (w = flag f)"

subsection \<open>ReadAsync and WriteAllAsync\<close>

text \<open>
  \<^verbatim>\<open>size_t\<close> and pointers are 64-bit words (the LP64 data model of the Ubuntu example's
  platform); \<^verbatim>\<open>int\<close> results of the primitive are integers, compared with 0 and converted
  to \<^verbatim>\<open>size_t\<close> where the source subtracts them.
\<close>

type_synonym size_t = "64 word"
type_synonym address = "64 word"

text \<open>
  The closures handed to \<^verbatim>\<open>RunDelayedTask\<close>: \<^verbatim>\<open>base::Bind(success_callback, res)\<close> of a read,
  \<^verbatim>\<open>success_callback\<close> of a write, and \<^verbatim>\<open>base::Bind(error_callback, base::Owned(error))\<close>.
  Running one runs the client's callback; the model records it.
\<close>

datatype stream_closure =
    Read_success closure int
  | Write_success closure
  | Error_callback closure ErrorPtr

datatype stream_task =
    RunDelayedTask_task stream_closure
  | ReadAsync_task address size_t closure closure
  | WriteAllAsync_task address size_t closure closure

text \<open>
  One answer of \<^verbatim>\<open>SSL_read\<close> or \<^verbatim>\<open>SSL_write\<close>: the result, and what \<^verbatim>\<open>SSL_get_error\<close> says of
  it.
\<close>

record ssl_answer =
  ssl_result :: int
  ssl_error :: int

text \<open>
  The stream: its task runner (every task bound to a weak pointer), its weak pointer
  factory, the number of calls of the primitive so far, and the client callbacks that have
  run (an observation, not a field).
\<close>

record ssl_stream =
  stream_runner :: "(weak_ptr \<times> stream_task) task_runner"
  weak_factory :: weak_ptr_factory
  ssl_calls :: nat
  stream_delivered :: "stream_closure list"

definition post_weak :: "stream_task \<Rightarrow> nat \<Rightarrow> ssl_stream \<Rightarrow> ssl_stream" where
  "post_weak t delay s =
     (let (w, f) = GetWeakPtr (weak_factory s) in
      s\<lparr>weak_factory := f, stream_runner := PostDelayedTask (w, t) delay (stream_runner s)\<rparr>)"

definition Error_AddTo_local :: "ErrorPtr \<Rightarrow> string \<Rightarrow> string \<Rightarrow> string \<Rightarrow> ErrorPtr" where
  "Error_AddTo_local error domain code msg =
     \<lparr>err_domain = domain, err_code = code, err_message = msg\<rparr> # error"

definition ReadAsync ::
  "(nat \<Rightarrow> ssl_answer) \<Rightarrow> address \<Rightarrow> size_t \<Rightarrow> closure \<Rightarrow> closure \<Rightarrow> ErrorPtr option \<Rightarrow> ssl_stream
    \<Rightarrow> bool \<times> ErrorPtr option \<times> ssl_stream" where
  "ReadAsync ssl buffer size_to_read success_callback error_callback error s =
     (let res = ssl_result (ssl (ssl_calls s));
          err = ssl_error (ssl (ssl_calls s));
          s = s\<lparr>ssl_calls := Suc (ssl_calls s)\<rparr>
      in
      if res > 0 then
        (True, error, post_weak (RunDelayedTask_task (Read_success success_callback res)) 0 s)
      else if err = SSL_ERROR_WANT_READ \<or> err = SSL_ERROR_WANT_WRITE then
        (True, error,
         post_weak (ReadAsync_task buffer size_to_read success_callback error_callback) 1000 s)
      else
        (let weave_error = Error_AddTo_local [] ''ssl'' ''socket_read_failed'' ''SSL error'' in
         (True, error, post_weak (RunDelayedTask_task (Error_callback error_callback weave_error)) 0 s)))"

definition WriteAllAsync ::
  "(nat \<Rightarrow> ssl_answer) \<Rightarrow> address \<Rightarrow> size_t \<Rightarrow> closure \<Rightarrow> closure \<Rightarrow> ErrorPtr option \<Rightarrow> ssl_stream
    \<Rightarrow> bool \<times> ErrorPtr option \<times> ssl_stream" where
  "WriteAllAsync ssl buffer size_to_write success_callback error_callback error s =
     (let res = ssl_result (ssl (ssl_calls s));
          err = ssl_error (ssl (ssl_calls s));
          s = s\<lparr>ssl_calls := Suc (ssl_calls s)\<rparr>
      in
      if res > 0 then
        (let buffer = buffer + of_int res;
             size_to_write = size_to_write - of_int res
         in
         if size_to_write = 0 then
           (True, error, post_weak (RunDelayedTask_task (Write_success success_callback)) 0 s)
         else
           (True, error,
            post_weak (WriteAllAsync_task buffer size_to_write success_callback error_callback) 1000 s))
      else if err = SSL_ERROR_WANT_READ \<or> err = SSL_ERROR_WANT_WRITE then
        (True, error,
         post_weak (WriteAllAsync_task buffer size_to_write success_callback error_callback) 1000 s)
      else
        (let weave_error = Error_AddTo_local [] ''ssl'' ''socket_write_failed'' ''SSL error'' in
         (True, error, post_weak (RunDelayedTask_task (Error_callback error_callback weave_error)) 0 s)))"

subsection \<open>Cancellation and the run loop over the stream's tasks\<close>

definition CancelPendingAsyncOperations :: "ssl_stream \<Rightarrow> ssl_stream" where
  "CancelPendingAsyncOperations s = s\<lparr>weak_factory := InvalidateWeakPtrs (weak_factory s)\<rparr>"

text \<open>\<^verbatim>\<open>~SSLStream() { CancelPendingAsyncOperations(); }\<close>\<close>

definition SSLStream_destructor :: "ssl_stream \<Rightarrow> ssl_stream" where
  "SSLStream_destructor s = CancelPendingAsyncOperations s"

text \<open>
  Running a task bound to a weak pointer: nothing happens when the pointer is no longer
  valid. The rescheduled calls are bound through \<^verbatim>\<open>base::IgnoreResult\<close> with a null error
  pointer.
\<close>

definition run_stream_task :: "(nat \<Rightarrow> ssl_answer) \<Rightarrow> weak_ptr \<times> stream_task \<Rightarrow> ssl_stream \<Rightarrow> ssl_stream" where
  "run_stream_task ssl wt s =
     (if \<not> weak_ptr_valid (weak_factory s) (fst wt) then s
      else
        (case snd wt of
           RunDelayedTask_task c \<Rightarrow> s\<lparr>stream_delivered := stream_delivered s @ [c]\<rparr>
         | ReadAsync_task buffer size_to_read success_callback error_callback \<Rightarrow>
             snd (snd (ReadAsync ssl buffer size_to_read success_callback error_callback None s))
         | WriteAllAsync_task buffer size_to_write success_callback error_callback \<Rightarrow>
             snd (snd (WriteAllAsync ssl buffer size_to_write success_callback error_callback None s))))"

text \<open>
  \<open>run_stream ssl lag k n s\<close> runs at most \<open>n\<close> tasks; the task that is the \<open>k\<close>-th the
  loop has run starts \<open>lag k\<close> milliseconds late.
\<close>

fun run_stream :: "(nat \<Rightarrow> ssl_answer) \<Rightarrow> (nat \<Rightarrow> nat) \<Rightarrow> nat \<Rightarrow> nat \<Rightarrow> ssl_stream \<Rightarrow> ssl_stream" where
  "run_stream ssl lag k 0 s = s"
| "run_stream ssl lag k (Suc n) s =
     (case next_task (lag k) (stream_runner s) of
        None \<Rightarrow> s
      | Some (wt, r) \<Rightarrow> run_stream ssl lag (Suc k) n (run_stream_task ssl wt (s\<lparr>stream_runner := r\<rparr>)))"

text \<open>
  Every weak pointer in the queue was handed out by the stream's factory: it carries a
  retired flag, or the current flag with the factory knowing that it is out.
\<close>

definition stream_wf :: "ssl_stream \<Rightarrow> bool" where
  "stream_wf s =
     (\<forall>e \<in> set (pending (stream_runner s)).
        fst (snd e) < flag (weak_factory s)
        \<or> (fst (snd e) = flag (weak_factory s) \<and> handed_out (weak_factory s)))"

text \<open>
  A stream none of whose queued tasks holds a valid weak pointer: what cancellation leaves
  behind.
\<close>

definition stale :: "ssl_stream \<Rightarrow> bool" where
  "stale s = (\<forall>e \<in> set (pending (stream_runner s)). fst (snd e) \<noteq> flag (weak_factory s))"

section \<open>The connectivity manager (NetworkImpl)\<close>

datatype NetworkState = kOffline | kFailure | kConnecting | kConnected

subsection \<open>GetConnectionState\<close>

text \<open>
  The body of \<^verbatim>\<open>GetConnectionState\<close> is a sequence of return statements, three of them
  guarded by the exit status of a shell command run with \<^verbatim>\<open>std::system\<close>. The sequence is
  kept as the source has it, with the statements behind the first return, and executed by
  \<open>exec_stmts\<close>, which also records the commands it runs.
\<close>

datatype 'r stmt = Return 'r | If_system_return string "int \<Rightarrow> bool" 'r

fun exec_stmts :: "(string \<Rightarrow> int) \<Rightarrow> 'r stmt list \<Rightarrow> string list \<Rightarrow> 'r option \<times> string list" where
  "exec_stmts sys [] cmds = (None, cmds)"
| "exec_stmts sys (Return v # rest) cmds = (Some v, cmds)"
| "exec_stmts sys (If_system_return cmd test v # rest) cmds =
     (if test (sys cmd) then (Some v, cmds @ [cmd]) else exec_stmts sys rest (cmds @ [cmd]))"

definition GetConnectionState_body :: "NetworkState stmt list" where
  "GetConnectionState_body =
     [Return kOffline,
      If_system_return ''ping talk.google.com -c 1'' (\<lambda>status. status = 0) kConnected,
      If_system_return ''nmcli dev'' (\<lambda>status. status \<noteq> 0) kFailure,
      If_system_return ''nmcli dev | grep connecting'' (\<lambda>status. status = 0) kConnecting,
      Return kOffline]"

text \<open>The result: the state returned, and the shell commands that were run for it.\<close>

definition GetConnectionState :: "(string \<Rightarrow> int) \<Rightarrow> NetworkState option \<times> string list" where
  "GetConnectionState sys = exec_stmts sys GetConnectionState_body []"

subsection \<open>State, tasks and the operating system\<close>

text \<open>
  The tasks NetworkImpl posts. The weak pointer of NetworkImpl that binds the first two is
  never invalidated by the code (only the destruction of the object does), so a posted
  task runs for as long as the object lives, which is the span the model covers.
\<close>

datatype net_task =
    NotifyNetworkChanged_task
  | TryToConnect_task string string int nat closure
  | Run_closure closure
  | Run_stream_callback closure

datatype net_event =
    Listener_run listener bool
  | Closure_run closure
  | Stream_handed closure

text \<open>
  \<open>spawned\<close> and \<open>delivered\<close> are observations, not fields of the class: the commands
  forked so far, and the client callbacks run so far.
\<close>

record network_impl =
  hostapd_started :: bool
  callbacks :: "listener list"
  task_runner :: "net_task task_runner"
  spawned :: "(string \<times> string list) list"
  delivered :: "net_event list"

text \<open>
  What the operating system answers during one task: how late the task starts, the result
  of \<^verbatim>\<open>waitpid(pid, &status, WNOWAIT)\<close>, of \<^verbatim>\<open>socket\<close>, of \<^verbatim>\<open>ioctl(SIOCGIWESSID)\<close> with the
  essid it reports, of \<^verbatim>\<open>fork\<close>, the exit status of each shell command, and, for the one
  command that a task runs in a loop (\<^verbatim>\<open>ifconfig\<close>), the exit status of each of its runs.
\<close>

record os_view =
  lag_ms :: nat
  waitpid_result :: int
  socket_fd :: int
  ioctl_result :: int
  reported_essid :: string
  fork_result :: int
  system_status :: "string \<Rightarrow> int"
  ifconfig_status :: "nat \<Rightarrow> int"

definition post :: "net_task \<Rightarrow> nat \<Rightarrow> network_impl \<Rightarrow> network_impl" where
  "post t delay s = s\<lparr>task_runner := PostDelayedTask t delay (task_runner s)\<rparr>"

definition Time_Now :: "network_impl \<Rightarrow> nat" where
  "Time_Now s = clock_ms (task_runner s)"

text \<open>A call that blocks the thread (\<^verbatim>\<open>sleep\<close>) moves the clock.\<close>

definition elapse :: "nat \<Rightarrow> network_impl \<Rightarrow> network_impl" where
  "elapse ms s = s\<lparr>task_runner := (task_runner s)\<lparr>clock_ms := clock_ms (task_runner s) + ms\<rparr>\<rparr>"

definition AddOnConnectionChangedCallback :: "listener \<Rightarrow> network_impl \<Rightarrow> network_impl" where
  "AddOnConnectionChangedCallback i s = s\<lparr>callbacks := callbacks s @ [i]\<rparr>"

text \<open>
  \<^verbatim>\<open>ForkCmd\<close>: in the parent \<^verbatim>\<open>fork\<close> gives the child's pid, or -1 when no child could be
  made; either value is returned as it is. A child, where there is one, runs the command
  with the path and the arguments read as C strings.
\<close>

definition ForkCmd :: "os_view \<Rightarrow> string \<Rightarrow> string list \<Rightarrow> network_impl \<Rightarrow> (int \<times> network_impl) outcome" where
  "ForkCmd os path args s =
     (let pid = fork_result os in
      if pid \<noteq> 0 then
        Returns (pid, if pid > 0 then s\<lparr>spawned := spawned s @ [(c_str path, map c_str args)]\<rparr> else s)
      else Child_exec)"

subsection \<open>NotifyNetworkChanged\<close>

definition NotifyNetworkChanged :: "os_view \<Rightarrow> network_impl \<Rightarrow> network_impl" where
  "NotifyNetworkChanged os s =
     (let online = (fst (GetConnectionState (system_status os)) = Some kConnected) in
      s\<lparr>delivered := delivered s @ map (\<lambda>i. Listener_run i online) (callbacks s)\<rparr>)"

subsection \<open>The access point\<close>

text \<open>
  \<^verbatim>\<open>CHECK_EQ(0, std::system(cmd))\<close>: the process dies unless the command exits with 0. The
  two configuration files \<^verbatim>\<open>EnableAccessPoint\<close> writes are left out of the state: the program
  never reads them. The loop that configures the interface runs
  \<^verbatim>\<open>ifconfig wlan0 192.168.76.1/24\<close> at most 10 times and sleeps a second after each failure;
  \<open>ifconfig_sleeps status i left\<close> counts the sleeps from the \<open>i\<close>-th run on, with \<open>left\<close>
  runs to go.
\<close>

fun ifconfig_sleeps :: "(nat \<Rightarrow> int) \<Rightarrow> nat \<Rightarrow> nat \<Rightarrow> nat" where
  "ifconfig_sleeps status i 0 = 0"
| "ifconfig_sleeps status i (Suc left) =
     (if status i = 0 then 0 else Suc (ifconfig_sleeps status (Suc i) left))"

definition EnableAccessPoint :: "os_view \<Rightarrow> string \<Rightarrow> network_impl \<Rightarrow> network_impl outcome" where
  "EnableAccessPoint os ssid s =
     (if hostapd_started s then Returns s
      else if system_status os ''nmcli nm wifi off'' \<noteq> 0 then Check_failed
      else if system_status os ''rfkill unblock wlan'' \<noteq> 0 then Check_failed
      else if system_status os (''hostapd -B -K '' @ ''/tmp/weave_hostapd.conf'') \<noteq> 0 then Check_failed
      else
        (let s = (elapse 1000 s)\<lparr>hostapd_started := True\<rparr>;
             s = elapse (1000 * ifconfig_sleeps (ifconfig_status os) 0 10) s
         in
         if system_status os (''dnsmasq --conf-file='' @ ''/tmp/weave_dnsmasq.conf'') \<noteq> 0
         then Check_failed
         else Returns (post NotifyNetworkChanged_task 0 s)))"

text \<open>The exit status of the two \<^verbatim>\<open>pkill\<close> commands is stored and not looked at.\<close>

definition DisableAccessPoint :: "os_view \<Rightarrow> network_impl \<Rightarrow> network_impl outcome" where
  "DisableAccessPoint os s =
     (if system_status os ''nmcli nm wifi on'' \<noteq> 0 then Check_failed
      else Returns (post NotifyNetworkChanged_task 0 (s\<lparr>hostapd_started := False\<rparr>)))"

text \<open>The constructor, given the task runner: it ends with \<^verbatim>\<open>DisableAccessPoint()\<close>.\<close>

definition NetworkImpl_new :: "os_view \<Rightarrow> net_task task_runner \<Rightarrow> network_impl outcome" where
  "NetworkImpl_new os r =
     DisableAccessPoint os
       \<lparr>hostapd_started = False, callbacks = [], task_runner = r, spawned = [], delivered = []\<rparr>"

subsection \<open>TryToConnect and ConnectToService\<close>

text \<open>
  \<^verbatim>\<open>TryToConnect\<close> in three parts, in the order of the source: the poll of the join process
  (when \<open>pid\<close> is not 0), the spawn of a join process (when \<open>pid\<close> is 0 by then), and the
  check of the deadline.
\<close>

definition TryToConnect_deadline ::
  "string \<Rightarrow> string \<Rightarrow> int \<Rightarrow> nat \<Rightarrow> closure \<Rightarrow> network_impl \<Rightarrow> network_impl outcome" where
  "TryToConnect_deadline ssid passphrase pid until on_success s =
     (if Time_Now s \<ge> until then Returns (post NotifyNetworkChanged_task 0 s)
      else Returns (post (TryToConnect_task ssid passphrase pid until on_success) 1000 s))"

definition TryToConnect_spawn ::
  "os_view \<Rightarrow> string \<Rightarrow> string \<Rightarrow> int \<Rightarrow> nat \<Rightarrow> closure \<Rightarrow> network_impl \<Rightarrow> network_impl outcome" where
  "TryToConnect_spawn os ssid passphrase pid until on_success s =
     (if pid = 0 then
        (case ForkCmd os ''nmcli'' [''dev'', ''wifi'', ''connect'', ssid, ''password'', passphrase] s of
           Returns (pid', s') \<Rightarrow> TryToConnect_deadline ssid passphrase pid' until on_success s'
         | Check_failed \<Rightarrow> Check_failed
         | Child_exec \<Rightarrow> Child_exec
         | Undefined_behaviour \<Rightarrow> Undefined_behaviour)
      else TryToConnect_deadline ssid passphrase pid until on_success s)"

definition TryToConnect ::
  "os_view \<Rightarrow> string \<Rightarrow> string \<Rightarrow> int \<Rightarrow> nat \<Rightarrow> closure \<Rightarrow> network_impl \<Rightarrow> network_impl outcome" where
  "TryToConnect os ssid passphrase pid until on_success s =
     (if pid \<noteq> 0 \<and> pid = waitpid_result os then
        (if \<not> socket_fd os \<ge> 0 then Check_failed
         else if \<not> ioctl_result os \<ge> 0 then Check_failed
         else if ssid = reported_essid os then
           Returns (post (Run_closure on_success) 0 (post NotifyNetworkChanged_task 0 s))
         else TryToConnect_spawn os ssid passphrase 0 until on_success s)
      else TryToConnect_spawn os ssid passphrase pid until on_success s)"

text \<open>
  The deadline \<^verbatim>\<open>ConnectToService\<close> gives the attempt:
  \<^verbatim>\<open>base::Time::Now() + base::TimeDelta::FromMinutes(1)\<close>.
\<close>

definition ConnectToService_deadline :: "network_impl \<Rightarrow> nat" where
  "ConnectToService_deadline s = Time_Now s + 60000"

text \<open>
  \<^verbatim>\<open>ConnectToService\<close> returns a \<^verbatim>\<open>bool\<close>, but its last statement is the call of
  \<^verbatim>\<open>TryToConnect\<close>: when that call has returned, control flows off the end of the function
  without a return statement.
\<close>

definition ConnectToService ::
  "os_view \<Rightarrow> string \<Rightarrow> string \<Rightarrow> closure \<Rightarrow> ErrorPtr option \<Rightarrow> network_impl
    \<Rightarrow> (bool \<times> ErrorPtr option \<times> network_impl) outcome" where
  "ConnectToService os ssid passphrase on_success error s =
     (if \<not> (\<not> hostapd_started s) then Check_failed
      else if hostapd_started s then
        Returns (False, Error_AddTo error ''wifi'' ''busy'' ''Running Access Point.'', s)
      else
        (case TryToConnect os ssid passphrase 0 (ConnectToService_deadline s) on_success s of
           Returns s' \<Rightarrow> Undefined_behaviour
         | Check_failed \<Rightarrow> Check_failed
         | Child_exec \<Rightarrow> Child_exec
         | Undefined_behaviour \<Rightarrow> Undefined_behaviour))"

subsection \<open>OpenSslSocket\<close>

text \<open>
  \<^verbatim>\<open>Init\<close> blocks the thread while it sleeps, so the clock moves on by the seconds slept.
  Beside the state, the result shows the function's local \<^verbatim>\<open>ErrorPtr error\<close> as it is when
  the function returns (empty on the path that never declares it); the source does nothing
  with it.
\<close>

definition OpenSslSocket ::
  "(string \<Rightarrow> tls_primitive) \<Rightarrow> string \<Rightarrow> 16 word \<Rightarrow> closure \<Rightarrow> closure \<Rightarrow> network_impl
    \<Rightarrow> (network_impl \<times> ErrorPtr) outcome option" where
  "OpenSslSocket tls host port success_callback error_callback s =
     (case Init tls host port of
        None \<Rightarrow> None
      | Some Check_failed \<Rightarrow> Some Check_failed
      | Some Child_exec \<Rightarrow> Some Child_exec
      | Some Undefined_behaviour \<Rightarrow> Some Undefined_behaviour
      | Some (Returns (ok, slept)) \<Rightarrow>
          (if ok then
             Some (Returns (post (Run_stream_callback success_callback) 0 (elapse (1000 * slept) s), []))
           else
             (let error = Error_AddTo_local [] ''tls'' ''tls_init_failed''
                            ''Failed to initialize TLS stream.''
              in Some (Returns (elapse (1000 * slept) s, error)))))"

subsection \<open>The run loop over NetworkImpl's tasks\<close>

definition run_task :: "os_view \<Rightarrow> net_task \<Rightarrow> network_impl \<Rightarrow> network_impl outcome" where
  "run_task os t s =
     (case t of
        NotifyNetworkChanged_task \<Rightarrow> Returns (NotifyNetworkChanged os s)
      | TryToConnect_task ssid passphrase pid until on_success \<Rightarrow>
          TryToConnect os ssid passphrase pid until on_success s
      | Run_closure c \<Rightarrow> Returns (s\<lparr>delivered := delivered s @ [Closure_run c]\<rparr>)
      | Run_stream_callback c \<Rightarrow> Returns (s\<lparr>delivered := delivered s @ [Stream_handed c]\<rparr>))"

text \<open>
  \<open>run_tasks os k n s\<close> runs at most \<open>n\<close> tasks from state \<open>s\<close>; the task that is the
  \<open>k\<close>-th the loop has run sees the operating system as \<open>os k\<close>. The loop stops early when
  nothing is pending.
\<close>

fun run_tasks :: "(nat \<Rightarrow> os_view) \<Rightarrow> nat \<Rightarrow> nat \<Rightarrow> network_impl \<Rightarrow> network_impl outcome" where
  "run_tasks os k 0 s = Returns s"
| "run_tasks os k (Suc n) s =
     (case next_task (lag_ms (os k)) (task_runner s) of
        None \<Rightarrow> Returns s
      | Some (t, r) \<Rightarrow>
          (case run_task (os k) t (s\<lparr>task_runner := r\<rparr>) of
             Returns s' \<Rightarrow> run_tasks os (Suc k) n s'
           | Check_failed \<Rightarrow> Check_failed
           | Child_exec \<Rightarrow> Child_exec
           | Undefined_behaviour \<Rightarrow> Undefined_behaviour))"

text \<open>
  A connect attempt as \<^verbatim>\<open>ConnectToService\<close> starts it, with the access point off: the call
  \<^verbatim>\<open>TryToConnect(ssid, passphrase, 0, Now() + 1 minute, on_success)\<close>, seen by the operating
  system as \<open>os 0\<close>, and then at most \<open>n\<close> tasks of the run loop.
\<close>

definition attempt_run ::
  "(nat \<Rightarrow> os_view) \<Rightarrow> string \<Rightarrow> string \<Rightarrow> closure \<Rightarrow> nat \<Rightarrow> network_impl \<Rightarrow> network_impl outcome" where
  "attempt_run os ssid passphrase on_success n s =
     (case TryToConnect (os 0) ssid passphrase 0 (ConnectToService_deadline s) on_success s of
        Returns s' \<Rightarrow> run_tasks os 1 n s'
      | Check_failed \<Rightarrow> Check_failed
      | Child_exec \<Rightarrow> Child_exec
      | Undefined_behaviour \<Rightarrow> Undefined_behaviour)"

subsection \<open>Observations\<close>




text \<open>The flags the listeners were given, in the order of the events.\<close>

fun notified_flags :: "net_event list \<Rightarrow> bool list" where
  "notified_flags [] = []"
| "notified_flags (Listener_run i online # es) = online # notified_flags es"
| "notified_flags (Closure_run c # es) = notified_flags es"
| "notified_flags (Stream_handed c # es) = notified_flags es"

section \<open>The stream copier\<close>

text \<open>
  \<^verbatim>\<open>StreamCopier\<close> holds pointers to its source and its destination, so the streams live in
  a store, by address, and nothing in the model keeps the two addresses apart. Sizes and
  positions are natural numbers: each is bounded by the length of a vector, so the
  \<^verbatim>\<open>size_t\<close> arithmetic of the source does not wrap.
\<close>

record memory_stream =
  data :: "8 word list"
  read_position :: nat

text \<open>
  The callbacks, by what they are bound to: \<^verbatim>\<open>base::Bind(&StreamCopier::OnSuccessRead, weak,
  success_callback, error_callback)\<close>, \<^verbatim>\<open>base::Bind(&StreamCopier::Copy, weak, success_callback,
  error_callback)\<close>, or a callback of some other client of the stream. The copier's weak
  pointers are never invalidated by the code while the copier lives.
\<close>

datatype read_callback = OnSuccessRead_bound closure closure | Client_read_callback closure

datatype write_callback = Copy_bound closure closure | Client_write_callback closure

datatype copier_task = Run_read_callback read_callback nat | Run_write_callback write_callback

text \<open>
  What can be observed: a read of a stream with the size read, a write with the size
  written, and a client callback run (for the copy job, \<^verbatim>\<open>success_callback.Run(size_done_)\<close>).
\<close>

datatype copier_event =
    Read_done nat
  | Write_done nat
  | Read_callback_run closure nat
  | Write_callback_run closure

record copier_world =
  streams :: "nat \<Rightarrow> memory_stream"
  source :: nat
  destination :: nat
  buffer :: "8 word list"
  size_done :: nat
  copier_runner :: "copier_task task_runner"
  trace :: "copier_event list"

definition post_copier :: "copier_task \<Rightarrow> nat \<Rightarrow> copier_world \<Rightarrow> copier_world" where
  "post_copier t delay w = w\<lparr>copier_runner := PostDelayedTask t delay (copier_runner w)\<rparr>"

text \<open>
  \<^verbatim>\<open>MemoryStream::Read\<close> of the stream at address \<open>a\<close> into the copier's buffer (the only
  buffer there is): \<^verbatim>\<open>memcpy\<close> overwrites the first \<open>size_read\<close> bytes of it.
\<close>

definition MemoryStream_Read ::
  "nat \<Rightarrow> nat \<Rightarrow> read_callback \<Rightarrow> closure \<Rightarrow> copier_world \<Rightarrow> copier_world outcome" where
  "MemoryStream_Read a size_to_read success_callback error_callback w =
     (let m = streams w a in
      if \<not> read_position m \<le> length (data m) then Check_failed
      else
        (let size_read = min size_to_read (length (data m) - read_position m);
             w = (if size_read > 0
                  then w\<lparr>buffer := take size_read (drop (read_position m) (data m))
                                      @ drop size_read (buffer w)\<rparr>
                  else w);
             w = w\<lparr>streams := (streams w)(a := m\<lparr>read_position := read_position m + size_read\<rparr>),
                    trace := trace w @ [Read_done size_read]\<rparr>
         in Returns (post_copier (Run_read_callback success_callback size_read) 0 w)))"

definition MemoryStream_Write ::
  "nat \<Rightarrow> nat \<Rightarrow> write_callback \<Rightarrow> closure \<Rightarrow> copier_world \<Rightarrow> copier_world" where
  "MemoryStream_Write a size_to_write success_callback error_callback w =
     (let m = streams w a;
          w = w\<lparr>streams := (streams w)(a := m\<lparr>data := data m @ take size_to_write (buffer w)\<rparr>),
                 trace := trace w @ [Write_done size_to_write]\<rparr>
      in post_copier (Run_write_callback success_callback) 0 w)"

definition StreamCopier_Copy :: "closure \<Rightarrow> closure \<Rightarrow> copier_world \<Rightarrow> copier_world outcome" where
  "StreamCopier_Copy success_callback error_callback w =
     MemoryStream_Read (source w) (length (buffer w))
       (OnSuccessRead_bound success_callback error_callback) error_callback w"

definition OnSuccessRead :: "closure \<Rightarrow> closure \<Rightarrow> nat \<Rightarrow> copier_world \<Rightarrow> copier_world" where
  "OnSuccessRead success_callback error_callback sz w =
     (let w = w\<lparr>size_done := size_done w + sz\<rparr> in
      if sz \<noteq> 0 then
        MemoryStream_Write (destination w) sz (Copy_bound success_callback error_callback)
          error_callback w
      else w\<lparr>trace := trace w @ [Read_callback_run success_callback (size_done w)]\<rparr>)"

definition run_copier_task :: "copier_task \<Rightarrow> copier_world \<Rightarrow> copier_world outcome" where
  "run_copier_task t w =
     (case t of
        Run_read_callback (OnSuccessRead_bound success_callback error_callback) sz \<Rightarrow>
          Returns (OnSuccessRead success_callback error_callback sz w)
      | Run_read_callback (Client_read_callback c) sz \<Rightarrow>
          Returns (w\<lparr>trace := trace w @ [Read_callback_run c sz]\<rparr>)
      | Run_write_callback (Copy_bound success_callback error_callback) \<Rightarrow>
          StreamCopier_Copy success_callback error_callback w
      | Run_write_callback (Client_write_callback c) \<Rightarrow>
          Returns (w\<lparr>trace := trace w @ [Write_callback_run c]\<rparr>))"

fun run_copier :: "nat \<Rightarrow> copier_world \<Rightarrow> copier_world outcome" where
  "run_copier 0 w = Returns w"
| "run_copier (Suc n) w =
     (case next_task 0 (copier_runner w) of
        None \<Rightarrow> Returns w
      | Some (t, r) \<Rightarrow>
          (case run_copier_task t (w\<lparr>copier_runner := r\<rparr>) of
             Returns w' \<Rightarrow> run_copier n w'
           | Check_failed \<Rightarrow> Check_failed
           | Child_exec \<Rightarrow> Child_exec
           | Undefined_behaviour \<Rightarrow> Undefined_behaviour))"

text \<open>
  The sizes of the chunks in which \<open>n\<close> bytes pass through a buffer of \<open>b\<close> bytes, and the
  events of a whole copy job in their order: for each chunk a read and the write of the
  same size, then the read of 0 bytes and the success callback with the total.
\<close>

function chunk_sizes :: "nat \<Rightarrow> nat \<Rightarrow> nat list" where
  "chunk_sizes n b = (if n = 0 \<or> b = 0 then [] else min n b # chunk_sizes (n - min n b) b)"
  by pat_completeness auto
termination
  by (relation "measure fst") auto

definition copy_events :: "closure \<Rightarrow> nat \<Rightarrow> nat \<Rightarrow> nat \<Rightarrow> copier_event list" where
  "copy_events success_callback n b size_total =
     concat (map (\<lambda>c. [Read_done c, Write_done c]) (chunk_sizes n b))
       @ [Read_done 0, Read_callback_run success_callback size_total]"

text \<open>The number of reads in a trace that returned at least one byte.\<close>

fun nonzero_reads :: "copier_event list \<Rightarrow> nat" where
  "nonzero_reads [] = 0"
| "nonzero_reads (Read_done c # es) = (if c > 0 then 1 else 0) + nonzero_reads es"
| "nonzero_reads (Write_done c # es) = nonzero_reads es"
| "nonzero_reads (Read_callback_run cb c # es) = nonzero_reads es"
| "nonzero_reads (Write_callback_run cb # es) = nonzero_reads es"

text \<open>
  Two abbreviations for the proofs about a copy job. \<open>copy_then_run\<close> is a call of
  \<^verbatim>\<open>Copy\<close> followed by at most \<open>n\<close> tasks of the run loop, which is also what the run loop
  does with a task bound to \<^verbatim>\<open>Copy\<close>. \<open>after_round c w\<close> is the state after one round that
  moved \<open>c\<close> bytes: the read into the buffer, \<^verbatim>\<open>OnSuccessRead\<close>, the write, and the task
  bound to \<^verbatim>\<open>Copy\<close> taken from the queue.
\<close>

definition copy_then_run :: "closure \<Rightarrow> closure \<Rightarrow> nat \<Rightarrow> copier_world \<Rightarrow> copier_world outcome" where
  "copy_then_run success_callback error_callback n w =
     (case StreamCopier_Copy success_callback error_callback w of
        Returns w0 \<Rightarrow> run_copier n w0
      | Check_failed \<Rightarrow> Check_failed
      | Child_exec \<Rightarrow> Child_exec
      | Undefined_behaviour \<Rightarrow> Undefined_behaviour)"

definition after_round :: "nat \<Rightarrow> copier_world \<Rightarrow> copier_world" where
  "after_round c w =
     (let m = streams w (source w);
          filled = take c (drop (read_position m) (data m)) @ drop c (buffer w);
          st = (streams w)(source w := m\<lparr>read_position := read_position m + c\<rparr>)
      in w\<lparr>buffer := filled,
            streams := st(destination w := (st (destination w))\<lparr>data := data (st (destination w)) @ take c filled\<rparr>),
            size_done := size_done w + c,
            trace := trace w @ [Read_done c, Write_done c],
            copier_runner := (copier_runner w)\<lparr>pending := []\<rparr>\<rparr>)"

section \<open>Scenarios\<close>

text \<open>
  Concrete states and environments on which the theorems below are instantiated. Two
  listeners (7 and 8) are registered, nothing is pending and the access point is off.
\<close>

definition idle_network :: network_impl where
  "idle_network = \<lparr>hostapd_started = False, callbacks = [7, 8],
     task_runner = \<lparr>clock_ms = 0, pending = []\<rparr>, spawned = [], delivered = []\<rparr>"

definition os_other_network :: "nat \<Rightarrow> os_view" where
  "os_other_network k = \<lparr>lag_ms = 0, waitpid_result = 4242, socket_fd = 3, ioctl_result = 0,
     reported_essid = ''guest'', fork_result = 4242, system_status = (\<lambda>cmd. 0),
     ifconfig_status = (\<lambda>i. 0)\<rparr>"

definition os_home_network :: "nat \<Rightarrow> os_view" where
  "os_home_network k = \<lparr>lag_ms = 5, waitpid_result = 4242, socket_fd = 3, ioctl_result = 0,
     reported_essid = ''home'', fork_result = 4242, system_status = (\<lambda>cmd. 0),
     ifconfig_status = (\<lambda>i. 0)\<rparr>"

text \<open>
  A join of ''home'' that succeeds at the first poll: the state in which the attempt
  starts, and the state after the three tasks that follow.
\<close>

definition home_attempt :: network_impl where
  "home_attempt = \<lparr>hostapd_started = False, callbacks = [7, 8],
     task_runner = \<lparr>clock_ms = 0,
        pending = [(1000, TryToConnect_task ''home'' ''secret'' 4242 60000 1)]\<rparr>,
     spawned = [(''nmcli'', [''dev'', ''wifi'', ''connect'', ''home'', ''password'', ''secret''])],
     delivered = []\<rparr>"

definition home_joined :: network_impl where
  "home_joined = \<lparr>hostapd_started = False, callbacks = [7, 8],
     task_runner = \<lparr>clock_ms = 1015, pending = []\<rparr>,
     spawned = [(''nmcli'', [''dev'', ''wifi'', ''connect'', ''home'', ''password'', ''secret''])],
     delivered = [Listener_run 7 False, Listener_run 8 False, Closure_run 1]\<rparr>"

text \<open>An operating system in which nothing happens.\<close>

definition os_quiet :: "nat \<Rightarrow> os_view" where
  "os_quiet k = \<lparr>lag_ms = 0, waitpid_result = 0, socket_fd = 3, ioctl_result = 0,
     reported_essid = [], fork_result = 4242, system_status = (\<lambda>cmd. 0),
     ifconfig_status = (\<lambda>i. 0)\<rparr>"








text \<open>
  Four TLS peers, each answering the same way at every end point: one whose first two
  handshake calls would block, one that refuses the connection for good, one whose
  handshake fails for good (result 0, error code \<^verbatim>\<open>SSL_ERROR_SSL\<close>, which is 1), and one
  that is reached at the third connect call.
\<close>

definition tls_handshake_would_block :: "string \<Rightarrow> tls_primitive" where
  "tls_handshake_would_block e = \<lparr>SSL_CTX_new_ok = True, BIO_new_connect_ok = True,
     BIO_do_connect = (\<lambda>k. 1), BIO_should_retry = (\<lambda>k. False),
     SSL_do_handshake = (\<lambda>k. if k < 2 then - 1 else 1),
     SSL_get_error_handshake = (\<lambda>k. SSL_ERROR_WANT_READ)\<rparr>"

definition tls_connect_refused :: "string \<Rightarrow> tls_primitive" where
  "tls_connect_refused e = \<lparr>SSL_CTX_new_ok = True, BIO_new_connect_ok = True,
     BIO_do_connect = (\<lambda>k. 0), BIO_should_retry = (\<lambda>k. False),
     SSL_do_handshake = (\<lambda>k. 1),
     SSL_get_error_handshake = (\<lambda>k. 0)\<rparr>"

definition tls_handshake_fatal :: "string \<Rightarrow> tls_primitive" where
  "tls_handshake_fatal e = \<lparr>SSL_CTX_new_ok = True, BIO_new_connect_ok = True,
     BIO_do_connect = (\<lambda>k. 1), BIO_should_retry = (\<lambda>k. False),
     SSL_do_handshake = (\<lambda>k. 0),
     SSL_get_error_handshake = (\<lambda>k. 1)\<rparr>"

definition tls_connect_slow :: "string \<Rightarrow> tls_primitive" where
  "tls_connect_slow e = \<lparr>SSL_CTX_new_ok = True, BIO_new_connect_ok = True,
     BIO_do_connect = (\<lambda>k. if k < 2 then 0 else 1), BIO_should_retry = (\<lambda>k. True),
     SSL_do_handshake = (\<lambda>k. 1),
     SSL_get_error_handshake = (\<lambda>k. 0)\<rparr>"

text \<open>
  A stream with a read and a write in flight. The primitive's answers: the first call
  would block, the second takes 4 bytes, the third gives 5 bytes, every later one takes or
  gives 6.
\<close>

definition fresh_stream :: ssl_stream where
  "fresh_stream = \<lparr>stream_runner = \<lparr>clock_ms = 0, pending = []\<rparr>,
     weak_factory = \<lparr>flag = 0, handed_out = False\<rparr>, ssl_calls = 0, stream_delivered = []\<rparr>"

definition ssl_script :: "nat \<Rightarrow> ssl_answer" where
  "ssl_script k =
     (if k = 0 then \<lparr>ssl_result = - 1, ssl_error = SSL_ERROR_WANT_READ\<rparr>
      else if k = 1 then \<lparr>ssl_result = 4, ssl_error = 0\<rparr>
      else if k = 2 then \<lparr>ssl_result = 5, ssl_error = 0\<rparr>
      else \<lparr>ssl_result = 6, ssl_error = 0\<rparr>)"

text \<open>
  Two more primitives: one that moves 16 bytes at every call, and one that fails every
  call for good (result -1, error code \<^verbatim>\<open>SSL_ERROR_SSL\<close>).
\<close>

definition ssl_data :: "nat \<Rightarrow> ssl_answer" where
  "ssl_data k = \<lparr>ssl_result = 16, ssl_error = 0\<rparr>"

definition ssl_broken :: "nat \<Rightarrow> ssl_answer" where
  "ssl_broken k = \<lparr>ssl_result = - 1, ssl_error = 1\<rparr>"

definition no_lag :: "nat \<Rightarrow> nat" where
  "no_lag k = 0"

definition stream_in_flight :: ssl_stream where
  "stream_in_flight =
     snd (snd (WriteAllAsync ssl_script 2000 10 3 4 None
       (snd (snd (ReadAsync ssl_script 1000 16 1 2 None fresh_stream)))))"

text \<open>
  The copy job of the spec's example: a source of 1000 bytes at address 1, an empty
  destination at address 2, and the buffer of 4096 bytes.
\<close>

definition copy_1000 :: copier_world where
  "copy_1000 = \<lparr>streams = (\<lambda>a. \<lparr>data = [], read_position = 0\<rparr>)
                    (1 := \<lparr>data = replicate 1000 7, read_position = 0\<rparr>),
     source = 1, destination = 2, buffer = replicate 4096 0, size_done = 0,
     copier_runner = \<lparr>clock_ms = 0, pending = []\<rparr>, trace = []\<rparr>"

section \<open>Properties of the task runner\<close>

lemma length_enqueue: "length (enqueue e q) = Suc (length q)"
  by (induction q) simp_all

lemma set_enqueue: "set (enqueue e q) = insert e (set q)"
  by (induction q) auto

section \<open>Properties of the secure transport stream\<close>

subsection \<open>Init\<close>

lemma handshake_loop_never_retries:
  "handshake_loop tls k = Some (SSL_do_handshake tls k \<noteq> 0, k)"
  by (subst handshake_loop.simps) (auto simp: SSL_ERROR_WANT_READ_def SSL_ERROR_WANT_WRITE_def)

lemma connect_loop_fatal:
  "BIO_do_connect tls k \<noteq> 1 \<Longrightarrow> \<not> BIO_should_retry tls k \<Longrightarrow> connect_loop tls k = Some Check_failed"
  by (subst connect_loop.simps) simp

lemma connect_loop_done:
  "BIO_do_connect tls k = 1 \<Longrightarrow> connect_loop tls k = Some (Returns k)"
  by (subst connect_loop.simps) simp

lemma connect_loop_retry:
  "BIO_do_connect tls k \<noteq> 1 \<Longrightarrow> BIO_should_retry tls k \<Longrightarrow> connect_loop tls k = connect_loop tls (Suc k)"
  by (subst connect_loop.simps) simp

lemma connect_loop_retries:
  "\<forall>k<m. BIO_do_connect tls (j + k) \<noteq> 1 \<and> BIO_should_retry tls (j + k) \<Longrightarrow>
     connect_loop tls j = connect_loop tls (j + m)"
proof (induction m arbitrary: j)
  case 0
  then show ?case by simp
next
  case (Suc m)
  from Suc.prems have first: "BIO_do_connect tls j \<noteq> 1" "BIO_should_retry tls j"
    by (metis add.right_neutral zero_less_Suc)+
  have "\<forall>k<m. BIO_do_connect tls (Suc j + k) \<noteq> 1 \<and> BIO_should_retry tls (Suc j + k)"
    using Suc.prems by (metis Suc_less_eq add_Suc_shift)
  from Suc.IH [OF this] connect_loop_retry [OF first] show ?case by simp
qed

lemma Init_connect_slow: "Init tls_connect_slow ''cloud'' 443 = Some (Returns (True, 2))"
  by (simp add: Init_def handshake_loop_never_retries connect_loop_done connect_loop_retry
      tls_connect_slow_def numeral_2_eq_2)

lemma end_point_example: "end_point ''cloud'' 443 = ''cloud:443''"
  by (simp add: end_point_def c_str_def char_of_def bit_0)

lemma Init_handshake_fatal: "Init tls_handshake_fatal ''cloud'' 443 = Some (Returns (False, 0))"
  by (simp add: Init_def handshake_loop_never_retries connect_loop_done tls_handshake_fatal_def)

text \<open>
  C3, as the spec states it, fails on the code at two concrete peers. A peer whose first
  handshake call would block (result -1, error code \<^verbatim>\<open>SSL_ERROR_WANT_READ\<close>), as a
  non-blocking handshake usually does: \<^verbatim>\<open>Init\<close> returns true at once, without a retry and
  before the session is established. A peer that refuses the connection with an error that
  is not retryable: \<^verbatim>\<open>Init\<close> does not return false, the process dies in
  \<^verbatim>\<open>CHECK(BIO_should_retry(stream_bio))\<close>.
\<close>

theorem Init_claim_counterexample:
  "Init tls_handshake_would_block ''cloud'' 443 = Some (Returns (True, 0)) \<and>
   SSL_do_handshake (tls_handshake_would_block ''cloud:443'') 0 = - 1 \<and>
   SSL_get_error_handshake (tls_handshake_would_block ''cloud:443'') 0 = SSL_ERROR_WANT_READ \<and>
   Init tls_connect_refused ''cloud'' 443 = Some Check_failed \<and>
   BIO_do_connect (tls_connect_refused ''cloud:443'') 0 = 0 \<and>
   \<not> BIO_should_retry (tls_connect_refused ''cloud:443'') 0"
  by (simp add: Init_def handshake_loop_never_retries connect_loop_done connect_loop_fatal
      tls_handshake_would_block_def tls_connect_refused_def)

text \<open>
  C3, amended: \<^verbatim>\<open>Init(host, port)\<close> repeats the connect step, sleeping one second after each
  failed call, for as long as the primitive reports the failure as retryable. If then a
  connect call fails with an error that is not retryable, \<^verbatim>\<open>Init\<close> does not return: the
  process dies in a \<^verbatim>\<open>CHECK\<close>. If instead a connect call succeeds, then a handshake call
  that reports the session established (result 1) makes \<^verbatim>\<open>Init\<close> return true, and a
  handshake call that fails (result 0) with an error code other than would-block makes it
  return false; either way it has slept once per failed connect call. (What \<^verbatim>\<open>Init\<close> does
  when the handshake would block is left open here.)
\<close>

theorem Init_connect_retry_and_handshake:
  assumes "SSL_CTX_new_ok (tls (end_point host port))"
    and "BIO_new_connect_ok (tls (end_point host port))"
    and "\<forall>k<m. BIO_do_connect (tls (end_point host port)) k \<noteq> 1
                \<and> BIO_should_retry (tls (end_point host port)) k"
  shows "(BIO_do_connect (tls (end_point host port)) m \<noteq> 1
            \<and> \<not> BIO_should_retry (tls (end_point host port)) m
          \<longrightarrow> Init tls host port = Some Check_failed) \<and>
         (BIO_do_connect (tls (end_point host port)) m = 1
            \<and> SSL_do_handshake (tls (end_point host port)) 0 = 1
          \<longrightarrow> Init tls host port = Some (Returns (True, m))) \<and>
         (BIO_do_connect (tls (end_point host port)) m = 1
            \<and> SSL_do_handshake (tls (end_point host port)) 0 = 0
            \<and> SSL_get_error_handshake (tls (end_point host port)) 0 \<noteq> SSL_ERROR_WANT_READ
            \<and> SSL_get_error_handshake (tls (end_point host port)) 0 \<noteq> SSL_ERROR_WANT_WRITE
          \<longrightarrow> Init tls host port = Some (Returns (False, m)))"
proof -
  have "connect_loop (tls (end_point host port)) 0 = connect_loop (tls (end_point host port)) m"
    using connect_loop_retries [of m "tls (end_point host port)" 0] assms(3) by simp
  then show ?thesis
    using assms(1,2)
    by (auto simp: Init_def Let_def connect_loop_fatal connect_loop_done handshake_loop_never_retries)
qed

theorem Init_connect_retry_and_handshake_witness:
  "Init tls_connect_slow ''cloud'' 443 = Some (Returns (True, 2)) \<and>
   Init tls_connect_refused ''cloud'' 443 = Some Check_failed \<and>
   Init tls_handshake_fatal ''cloud'' 443 = Some (Returns (False, 0))"
  using Init_connect_retry_and_handshake [of tls_connect_slow "''cloud''" 443 2]
    Init_connect_retry_and_handshake [of tls_connect_refused "''cloud''" 443 0]
    Init_connect_retry_and_handshake [of tls_handshake_fatal "''cloud''" 443 0]
  by (simp add: tls_connect_slow_def tls_connect_refused_def tls_handshake_fatal_def
      SSL_ERROR_WANT_READ_def SSL_ERROR_WANT_WRITE_def)

subsection \<open>ReadAsync and WriteAllAsync\<close>

lemma post_weak_fields:
  "stream_delivered (post_weak t d s) = stream_delivered s"
  "ssl_calls (post_weak t d s) = ssl_calls s"
  "flag (weak_factory (post_weak t d s)) = flag (weak_factory s)"
  "handed_out (weak_factory (post_weak t d s))"
  "clock_ms (stream_runner (post_weak t d s)) = clock_ms (stream_runner s)"
  "pending (stream_runner (post_weak t d s)) =
     enqueue (clock_ms (stream_runner s) + d, (flag (weak_factory s), t)) (pending (stream_runner s))"
  by (simp_all add: post_weak_def GetWeakPtr_def PostDelayedTask_def)

lemma ReadAsync_paths:
  "ReadAsync ssl buf n sc ec error s =
     (True, error,
      if 0 < ssl_result (ssl (ssl_calls s)) then
        post_weak (RunDelayedTask_task (Read_success sc (ssl_result (ssl (ssl_calls s))))) 0
          (s\<lparr>ssl_calls := Suc (ssl_calls s)\<rparr>)
      else if ssl_error (ssl (ssl_calls s)) = SSL_ERROR_WANT_READ
              \<or> ssl_error (ssl (ssl_calls s)) = SSL_ERROR_WANT_WRITE then
        post_weak (ReadAsync_task buf n sc ec) 1000 (s\<lparr>ssl_calls := Suc (ssl_calls s)\<rparr>)
      else
        post_weak (RunDelayedTask_task (Error_callback ec
            [\<lparr>err_domain = ''ssl'', err_code = ''socket_read_failed'', err_message = ''SSL error''\<rparr>])) 0
          (s\<lparr>ssl_calls := Suc (ssl_calls s)\<rparr>))"
  by (simp add: ReadAsync_def Let_def Error_AddTo_local_def)

lemma WriteAllAsync_paths:
  "WriteAllAsync ssl buf n sc ec error s =
     (True, error,
      if 0 < ssl_result (ssl (ssl_calls s)) then
        (if n - of_int (ssl_result (ssl (ssl_calls s))) = 0 then
           post_weak (RunDelayedTask_task (Write_success sc)) 0 (s\<lparr>ssl_calls := Suc (ssl_calls s)\<rparr>)
         else
           post_weak (WriteAllAsync_task (buf + of_int (ssl_result (ssl (ssl_calls s))))
               (n - of_int (ssl_result (ssl (ssl_calls s)))) sc ec) 1000
             (s\<lparr>ssl_calls := Suc (ssl_calls s)\<rparr>))
      else if ssl_error (ssl (ssl_calls s)) = SSL_ERROR_WANT_READ
              \<or> ssl_error (ssl (ssl_calls s)) = SSL_ERROR_WANT_WRITE then
        post_weak (WriteAllAsync_task buf n sc ec) 1000 (s\<lparr>ssl_calls := Suc (ssl_calls s)\<rparr>)
      else
        post_weak (RunDelayedTask_task (Error_callback ec
            [\<lparr>err_domain = ''ssl'', err_code = ''socket_write_failed'', err_message = ''SSL error''\<rparr>])) 0
          (s\<lparr>ssl_calls := Suc (ssl_calls s)\<rparr>))"
  by (simp add: WriteAllAsync_def Let_def Error_AddTo_local_def)

lemma run_posted_task:
  assumes "pending (stream_runner s) = []"
  shows "run_stream ssl lag k (Suc 0) (post_weak t d s) =
     run_stream_task ssl (flag (weak_factory s), t)
       ((post_weak t d s)\<lparr>stream_runner :=
           (stream_runner s)\<lparr>clock_ms := clock_ms (stream_runner s) + d + lag k, pending := []\<rparr>\<rparr>)"
  using assms
  by (simp add: post_weak_def GetWeakPtr_def PostDelayedTask_def next_task_def)

lemma run_posted_closure:
  assumes "pending (stream_runner s) = []"
  shows "stream_delivered (run_stream ssl lag k (Suc 0) (post_weak (RunDelayedTask_task c) d s))
           = stream_delivered s @ [c]"
  using run_posted_task [OF assms, of ssl lag k "RunDelayedTask_task c" d]
  by (simp add: run_stream_task_def weak_ptr_valid_def post_weak_fields)

lemma run_posted_read:
  assumes "pending (stream_runner s) = []"
  shows "run_stream ssl lag k (Suc 0) (post_weak (ReadAsync_task buf n sc ec) d s)
           = snd (snd (ReadAsync ssl buf n sc ec None
               ((post_weak (ReadAsync_task buf n sc ec) d s)\<lparr>stream_runner :=
                  (stream_runner s)\<lparr>clock_ms := clock_ms (stream_runner s) + d + lag k, pending := []\<rparr>\<rparr>)))"
  using run_posted_task [OF assms, of ssl lag k "ReadAsync_task buf n sc ec" d]
  by (simp add: run_stream_task_def weak_ptr_valid_def post_weak_fields)

lemma run_posted_write:
  assumes "pending (stream_runner s) = []"
  shows "run_stream ssl lag k (Suc 0) (post_weak (WriteAllAsync_task buf n sc ec) d s)
           = snd (snd (WriteAllAsync ssl buf n sc ec None
               ((post_weak (WriteAllAsync_task buf n sc ec) d s)\<lparr>stream_runner :=
                  (stream_runner s)\<lparr>clock_ms := clock_ms (stream_runner s) + d + lag k, pending := []\<rparr>\<rparr>)))"
  using run_posted_task [OF assms, of ssl lag k "WriteAllAsync_task buf n sc ec" d]
  by (simp add: run_stream_task_def weak_ptr_valid_def post_weak_fields)

text \<open>
  C10: \<^verbatim>\<open>ReadAsync\<close> and \<^verbatim>\<open>WriteAllAsync\<close> return true whatever the primitive answers, hand
  the error out-parameter back as they got it, and run no client callback before they
  return. What the primitive answered shows only in the one task the call posts, bound to
  the stream's weak pointer. For a read: a positive result posts, with no delay, the
  success callback bound to that result; a would-block error code posts the same read one
  second later; any other error code posts, with no delay, the error callback bound to the
  error ssl/socket_read_failed. For a write: a positive result that covers the whole size
  posts the success callback; a positive result that covers less posts, one second later,
  the write of the rest (the buffer advanced and the size reduced by the result); a
  would-block error code posts the same write one second later; any other error code
  posts the error callback bound to ssl/socket_write_failed. The run loop then reports the
  outcome: with nothing else pending, its next task runs the posted callback, or makes the
  posted call again.
\<close>

theorem async_calls_always_return_true:
  "fst (ReadAsync ssl buf n sc ec error s) = True \<and>
   fst (snd (ReadAsync ssl buf n sc ec error s)) = error \<and>
   stream_delivered (snd (snd (ReadAsync ssl buf n sc ec error s))) = stream_delivered s \<and>
   fst (WriteAllAsync ssl buf n sc ec error s) = True \<and>
   fst (snd (WriteAllAsync ssl buf n sc ec error s)) = error \<and>
   stream_delivered (snd (snd (WriteAllAsync ssl buf n sc ec error s))) = stream_delivered s \<and>
   snd (snd (ReadAsync ssl buf n sc ec error s)) =
     (if 0 < ssl_result (ssl (ssl_calls s)) then
        post_weak (RunDelayedTask_task (Read_success sc (ssl_result (ssl (ssl_calls s))))) 0
          (s\<lparr>ssl_calls := Suc (ssl_calls s)\<rparr>)
      else if ssl_error (ssl (ssl_calls s)) = SSL_ERROR_WANT_READ
              \<or> ssl_error (ssl (ssl_calls s)) = SSL_ERROR_WANT_WRITE then
        post_weak (ReadAsync_task buf n sc ec) 1000 (s\<lparr>ssl_calls := Suc (ssl_calls s)\<rparr>)
      else
        post_weak (RunDelayedTask_task (Error_callback ec
            [\<lparr>err_domain = ''ssl'', err_code = ''socket_read_failed'', err_message = ''SSL error''\<rparr>])) 0
          (s\<lparr>ssl_calls := Suc (ssl_calls s)\<rparr>)) \<and>
   snd (snd (WriteAllAsync ssl buf n sc ec error s)) =
     (if 0 < ssl_result (ssl (ssl_calls s)) then
        (if n - of_int (ssl_result (ssl (ssl_calls s))) = 0 then
           post_weak (RunDelayedTask_task (Write_success sc)) 0 (s\<lparr>ssl_calls := Suc (ssl_calls s)\<rparr>)
         else
           post_weak (WriteAllAsync_task (buf + of_int (ssl_result (ssl (ssl_calls s))))
               (n - of_int (ssl_result (ssl (ssl_calls s)))) sc ec) 1000
             (s\<lparr>ssl_calls := Suc (ssl_calls s)\<rparr>))
      else if ssl_error (ssl (ssl_calls s)) = SSL_ERROR_WANT_READ
              \<or> ssl_error (ssl (ssl_calls s)) = SSL_ERROR_WANT_WRITE then
        post_weak (WriteAllAsync_task buf n sc ec) 1000 (s\<lparr>ssl_calls := Suc (ssl_calls s)\<rparr>)
      else
        post_weak (RunDelayedTask_task (Error_callback ec
            [\<lparr>err_domain = ''ssl'', err_code = ''socket_write_failed'', err_message = ''SSL error''\<rparr>])) 0
          (s\<lparr>ssl_calls := Suc (ssl_calls s)\<rparr>)) \<and>
   (pending (stream_runner t) = [] \<longrightarrow>
      stream_delivered (run_stream ssl lag k (Suc 0) (post_weak (RunDelayedTask_task c) d t))
        = stream_delivered t @ [c]) \<and>
   (pending (stream_runner t) = [] \<longrightarrow>
      run_stream ssl lag k (Suc 0) (post_weak (ReadAsync_task buf n sc ec) d t)
        = snd (snd (ReadAsync ssl buf n sc ec None
            ((post_weak (ReadAsync_task buf n sc ec) d t)\<lparr>stream_runner :=
               (stream_runner t)\<lparr>clock_ms := clock_ms (stream_runner t) + d + lag k, pending := []\<rparr>\<rparr>)))) \<and>
   (pending (stream_runner t) = [] \<longrightarrow>
      run_stream ssl lag k (Suc 0) (post_weak (WriteAllAsync_task buf n sc ec) d t)
        = snd (snd (WriteAllAsync ssl buf n sc ec None
            ((post_weak (WriteAllAsync_task buf n sc ec) d t)\<lparr>stream_runner :=
               (stream_runner t)\<lparr>clock_ms := clock_ms (stream_runner t) + d + lag k, pending := []\<rparr>\<rparr>))))"
proof -
  have r: "fst (ReadAsync ssl buf n sc ec error s) = True"
    "fst (snd (ReadAsync ssl buf n sc ec error s)) = error"
    "stream_delivered (snd (snd (ReadAsync ssl buf n sc ec error s))) = stream_delivered s"
    by (simp_all add: ReadAsync_paths post_weak_fields)
  have w: "fst (WriteAllAsync ssl buf n sc ec error s) = True"
    "fst (snd (WriteAllAsync ssl buf n sc ec error s)) = error"
    "stream_delivered (snd (snd (WriteAllAsync ssl buf n sc ec error s))) = stream_delivered s"
    by (simp_all add: WriteAllAsync_paths post_weak_fields)
  show ?thesis
    using r w run_posted_closure [of t ssl lag k c d] run_posted_read [of t ssl lag k buf n sc ec d]
      run_posted_write [of t ssl lag k buf n sc ec d]
    by (simp only: ReadAsync_paths WriteAllAsync_paths snd_conv) simp
qed

theorem async_calls_always_return_true_witness:
  "ReadAsync ssl_data 1000 16 1 2 None fresh_stream =
     (True, None, \<lparr>stream_runner = \<lparr>clock_ms = 0,
          pending = [(0, 0, RunDelayedTask_task (Read_success 1 16))]\<rparr>,
        weak_factory = \<lparr>flag = 0, handed_out = True\<rparr>, ssl_calls = 1, stream_delivered = []\<rparr>) \<and>
   ReadAsync ssl_broken 1000 16 1 2 None fresh_stream =
     (True, None, \<lparr>stream_runner = \<lparr>clock_ms = 0,
          pending = [(0, 0, RunDelayedTask_task (Error_callback 2
            [\<lparr>err_domain = ''ssl'', err_code = ''socket_read_failed'', err_message = ''SSL error''\<rparr>]))]\<rparr>,
        weak_factory = \<lparr>flag = 0, handed_out = True\<rparr>, ssl_calls = 1, stream_delivered = []\<rparr>) \<and>
   WriteAllAsync ssl_data 2000 16 3 4 None fresh_stream =
     (True, None, \<lparr>stream_runner = \<lparr>clock_ms = 0,
          pending = [(0, 0, RunDelayedTask_task (Write_success 3))]\<rparr>,
        weak_factory = \<lparr>flag = 0, handed_out = True\<rparr>, ssl_calls = 1, stream_delivered = []\<rparr>) \<and>
   WriteAllAsync ssl_data 2000 40 3 4 None fresh_stream =
     (True, None, \<lparr>stream_runner = \<lparr>clock_ms = 0,
          pending = [(1000, 0, WriteAllAsync_task 2016 24 3 4)]\<rparr>,
        weak_factory = \<lparr>flag = 0, handed_out = True\<rparr>, ssl_calls = 1, stream_delivered = []\<rparr>) \<and>
   WriteAllAsync ssl_broken 2000 16 3 4 None fresh_stream =
     (True, None, \<lparr>stream_runner = \<lparr>clock_ms = 0,
          pending = [(0, 0, RunDelayedTask_task (Error_callback 4
            [\<lparr>err_domain = ''ssl'', err_code = ''socket_write_failed'', err_message = ''SSL error''\<rparr>]))]\<rparr>,
        weak_factory = \<lparr>flag = 0, handed_out = True\<rparr>, ssl_calls = 1, stream_delivered = []\<rparr>) \<and>
   stream_delivered (run_stream ssl_data no_lag 0 (Suc 0)
       (snd (snd (ReadAsync ssl_data 1000 16 1 2 None fresh_stream)))) = [Read_success 1 16] \<and>
   stream_delivered (run_stream ssl_broken no_lag 0 (Suc 0)
       (snd (snd (ReadAsync ssl_broken 1000 16 1 2 None fresh_stream))))
     = [Error_callback 2
          [\<lparr>err_domain = ''ssl'', err_code = ''socket_read_failed'', err_message = ''SSL error''\<rparr>]]"
proof -
  have idle: "pending (stream_runner (fresh_stream\<lparr>ssl_calls := Suc 0\<rparr>)) = []"
    by (simp add: fresh_stream_def)
  note data = async_calls_always_return_true [where ssl = ssl_data and buf = 1000 and sc = 1 and ec = 2
      and error = None and s = fresh_stream and t = "fresh_stream\<lparr>ssl_calls := Suc 0\<rparr>"
      and lag = no_lag and k = 0 and c = "Read_success 1 16" and d = 0]
  note broken = async_calls_always_return_true [where ssl = ssl_broken and buf = 1000 and sc = 1 and ec = 2
      and error = None and s = fresh_stream and t = "fresh_stream\<lparr>ssl_calls := Suc 0\<rparr>"
      and lag = no_lag and k = 0
      and c = "Error_callback 2
          [\<lparr>err_domain = ''ssl'', err_code = ''socket_read_failed'', err_message = ''SSL error''\<rparr>]"
      and d = 0]
  have r1: "stream_delivered (run_stream ssl_data no_lag 0 (Suc 0)
       (snd (snd (ReadAsync ssl_data 1000 16 1 2 None fresh_stream)))) = [Read_success 1 16]"
    using data [of 16] idle by (simp add: ssl_data_def fresh_stream_def)
  have r2: "stream_delivered (run_stream ssl_broken no_lag 0 (Suc 0)
       (snd (snd (ReadAsync ssl_broken 1000 16 1 2 None fresh_stream))))
     = [Error_callback 2
          [\<lparr>err_domain = ''ssl'', err_code = ''socket_read_failed'', err_message = ''SSL error''\<rparr>]]"
    using broken [of 16] idle
    by (simp add: ssl_broken_def fresh_stream_def SSL_ERROR_WANT_READ_def SSL_ERROR_WANT_WRITE_def)
  show ?thesis
    using r1 r2 data [of 16] data [of 40]
    by (simp add: ReadAsync_paths WriteAllAsync_paths ssl_data_def ssl_broken_def fresh_stream_def
        post_weak_def GetWeakPtr_def PostDelayedTask_def SSL_ERROR_WANT_READ_def SSL_ERROR_WANT_WRITE_def)
qed

lemma ReadAsync_would_block:
  assumes "ssl_result (ssl (ssl_calls s)) \<le> 0"
    and "ssl_error (ssl (ssl_calls s)) = SSL_ERROR_WANT_READ
         \<or> ssl_error (ssl (ssl_calls s)) = SSL_ERROR_WANT_WRITE"
  shows "ReadAsync ssl buf n sc ec error s =
           (True, error, post_weak (ReadAsync_task buf n sc ec) 1000 (s\<lparr>ssl_calls := Suc (ssl_calls s)\<rparr>))"
  using assms by (auto simp: ReadAsync_def Let_def)

lemma WriteAllAsync_would_block:
  assumes "ssl_result (ssl (ssl_calls s)) \<le> 0"
    and "ssl_error (ssl (ssl_calls s)) = SSL_ERROR_WANT_READ
         \<or> ssl_error (ssl (ssl_calls s)) = SSL_ERROR_WANT_WRITE"
  shows "WriteAllAsync ssl buf n sc ec error s =
           (True, error, post_weak (WriteAllAsync_task buf n sc ec) 1000 (s\<lparr>ssl_calls := Suc (ssl_calls s)\<rparr>))"
  using assms by (auto simp: WriteAllAsync_def Let_def)

text \<open>
  C5: when the primitive reports that it would block (a result that is not positive, with
  the error code \<^verbatim>\<open>SSL_ERROR_WANT_READ\<close> or \<^verbatim>\<open>SSL_ERROR_WANT_WRITE\<close>), \<^verbatim>\<open>ReadAsync\<close> and
  \<^verbatim>\<open>WriteAllAsync\<close> post one task and nothing else: the same operation, with the same buffer,
  the same size and the same callbacks, due one second later and bound to the stream's
  current weak pointer. No client callback runs, so no error reaches the error
  continuation. When the run loop later finds the weak pointer still valid, the task is
  that very call again.
\<close>

theorem would_block_is_rescheduled:
  assumes "ssl_result (ssl (ssl_calls s)) \<le> 0"
    and "ssl_error (ssl (ssl_calls s)) = SSL_ERROR_WANT_READ
         \<or> ssl_error (ssl (ssl_calls s)) = SSL_ERROR_WANT_WRITE"
  shows "ReadAsync ssl buf n sc ec error s =
           (True, error, post_weak (ReadAsync_task buf n sc ec) 1000 (s\<lparr>ssl_calls := Suc (ssl_calls s)\<rparr>)) \<and>
         WriteAllAsync ssl buf n sc ec error s =
           (True, error, post_weak (WriteAllAsync_task buf n sc ec) 1000 (s\<lparr>ssl_calls := Suc (ssl_calls s)\<rparr>)) \<and>
         pending (stream_runner (snd (snd (ReadAsync ssl buf n sc ec error s)))) =
           enqueue (clock_ms (stream_runner s) + 1000, (flag (weak_factory s), ReadAsync_task buf n sc ec))
             (pending (stream_runner s)) \<and>
         pending (stream_runner (snd (snd (WriteAllAsync ssl buf n sc ec error s)))) =
           enqueue (clock_ms (stream_runner s) + 1000, (flag (weak_factory s), WriteAllAsync_task buf n sc ec))
             (pending (stream_runner s)) \<and>
         stream_delivered (snd (snd (ReadAsync ssl buf n sc ec error s))) = stream_delivered s \<and>
         stream_delivered (snd (snd (WriteAllAsync ssl buf n sc ec error s))) = stream_delivered s \<and>
         (weak_ptr_valid (weak_factory t) w \<longrightarrow>
            run_stream_task ssl (w, ReadAsync_task buf n sc ec) t
              = snd (snd (ReadAsync ssl buf n sc ec None t))) \<and>
         (weak_ptr_valid (weak_factory t) w \<longrightarrow>
            run_stream_task ssl (w, WriteAllAsync_task buf n sc ec) t
              = snd (snd (WriteAllAsync ssl buf n sc ec None t)))"
  using ReadAsync_would_block [of ssl s buf n sc ec error]
    WriteAllAsync_would_block [of ssl s buf n sc ec error] assms
  by (simp add: post_weak_fields run_stream_task_def)

theorem would_block_is_rescheduled_witness:
  "ReadAsync ssl_script 1000 16 1 2 None fresh_stream =
     (True, None, \<lparr>stream_runner = \<lparr>clock_ms = 0, pending = [(1000, 0, ReadAsync_task 1000 16 1 2)]\<rparr>,
        weak_factory = \<lparr>flag = 0, handed_out = True\<rparr>, ssl_calls = 1, stream_delivered = []\<rparr>) \<and>
   WriteAllAsync ssl_script 1000 16 1 2 None fresh_stream =
     (True, None, \<lparr>stream_runner = \<lparr>clock_ms = 0, pending = [(1000, 0, WriteAllAsync_task 1000 16 1 2)]\<rparr>,
        weak_factory = \<lparr>flag = 0, handed_out = True\<rparr>, ssl_calls = 1, stream_delivered = []\<rparr>)"
  using would_block_is_rescheduled [of ssl_script fresh_stream 1000 16 1 2 None]
  by (simp add: ssl_script_def fresh_stream_def post_weak_def GetWeakPtr_def PostDelayedTask_def
      SSL_ERROR_WANT_READ_def)

text \<open>
  Over the run loop: a read that would block \<open>m\<close> times and then finds data hands the
  client its success callback, and nothing else, after \<open>m\<close> retries.
\<close>

lemma run_stream_one:
  assumes "pending (stream_runner s) = [(due, wt)]"
  shows "run_stream ssl lag k (Suc n) s =
     run_stream ssl lag (Suc k) n
       (run_stream_task ssl wt
          (s\<lparr>stream_runner := (stream_runner s)\<lparr>clock_ms := max (clock_ms (stream_runner s)) due + lag k,
                                                pending := []\<rparr>\<rparr>))"
  using assms by (simp add: next_task_def)

lemma read_retried_until_data:
  assumes "pending (stream_runner s) = []"
    and "\<forall>j<m. ssl_result (ssl (ssl_calls s + j)) \<le> 0
               \<and> (ssl_error (ssl (ssl_calls s + j)) = SSL_ERROR_WANT_READ
                  \<or> ssl_error (ssl (ssl_calls s + j)) = SSL_ERROR_WANT_WRITE)"
    and "0 < ssl_result (ssl (ssl_calls s + m))"
  shows "stream_delivered (run_stream ssl lag k (Suc m) (snd (snd (ReadAsync ssl buf n sc ec error s))))
           = stream_delivered s @ [Read_success sc (ssl_result (ssl (ssl_calls s + m)))]"
  using assms
proof (induction m arbitrary: s k error)
  case 0
  then show ?case
    by (simp add: ReadAsync_def Let_def post_weak_def GetWeakPtr_def PostDelayedTask_def next_task_def
        run_stream_task_def weak_ptr_valid_def)
next
  case (Suc m)
  from Suc.prems(2) have blocked: "ssl_result (ssl (ssl_calls s)) \<le> 0"
    "ssl_error (ssl (ssl_calls s)) = SSL_ERROR_WANT_READ \<or> ssl_error (ssl (ssl_calls s)) = SSL_ERROR_WANT_WRITE"
    by (metis add.right_neutral zero_less_Suc)+
  define s1 where "s1 = snd (snd (ReadAsync ssl buf n sc ec error s))"
  have s1: "pending (stream_runner s1) = [(clock_ms (stream_runner s) + 1000, (flag (weak_factory s), ReadAsync_task buf n sc ec))]"
    "flag (weak_factory s1) = flag (weak_factory s)" "ssl_calls s1 = Suc (ssl_calls s)"
    "stream_delivered s1 = stream_delivered s"
    using ReadAsync_would_block [of ssl s buf n sc ec error] blocked Suc.prems(1)
    by (simp_all add: s1_def post_weak_fields)
  define s2 where "s2 = s1\<lparr>stream_runner := (stream_runner s1)\<lparr>clock_ms :=
      max (clock_ms (stream_runner s1)) (clock_ms (stream_runner s) + 1000) + lag k, pending := []\<rparr>\<rparr>"
  have s2: "pending (stream_runner s2) = []" "ssl_calls s2 = Suc (ssl_calls s)"
    "stream_delivered s2 = stream_delivered s" "flag (weak_factory s2) = flag (weak_factory s)"
    using s1 by (simp_all add: s2_def)
  have "run_stream ssl lag k (Suc (Suc m)) s1
      = run_stream ssl lag (Suc k) (Suc m) (snd (snd (ReadAsync ssl buf n sc ec None s2)))"
    using run_stream_one [OF s1(1), of ssl lag k "Suc m"] s2(4)
    by (simp add: s2_def [symmetric] run_stream_task_def weak_ptr_valid_def)
  moreover have "\<forall>j<m. ssl_result (ssl (ssl_calls s2 + j)) \<le> 0
               \<and> (ssl_error (ssl (ssl_calls s2 + j)) = SSL_ERROR_WANT_READ
                  \<or> ssl_error (ssl (ssl_calls s2 + j)) = SSL_ERROR_WANT_WRITE)"
    using Suc.prems(2) s2(2) by (metis Suc_less_eq add_Suc_shift)
  moreover have "0 < ssl_result (ssl (ssl_calls s2 + m))"
    using Suc.prems(3) s2(2) by simp
  ultimately show ?case
    using Suc.IH [OF s2(1), of "Suc k" None] s2 by (simp add: s1_def)
qed

subsection \<open>Cancellation\<close>

text \<open>
  The states the stream can reach satisfy \<open>stream_wf\<close>: a fresh stream does, and every
  operation keeps it.
\<close>

lemma stream_wf_post_weak: "stream_wf s \<Longrightarrow> stream_wf (post_weak t d s)"
  by (auto simp: stream_wf_def post_weak_fields set_enqueue)

lemma stream_wf_calls: "stream_wf (s\<lparr>ssl_calls := c\<rparr>) = stream_wf s"
  by (simp add: stream_wf_def)

lemma stream_wf_ReadAsync: "stream_wf s \<Longrightarrow> stream_wf (snd (snd (ReadAsync ssl buf n sc ec error s)))"
  by (simp add: ReadAsync_def Let_def stream_wf_post_weak stream_wf_calls)

lemma stream_wf_WriteAllAsync: "stream_wf s \<Longrightarrow> stream_wf (snd (snd (WriteAllAsync ssl buf n sc ec error s)))"
  by (simp add: WriteAllAsync_def Let_def stream_wf_post_weak stream_wf_calls)

lemma stream_wf_Cancel: "stream_wf s \<Longrightarrow> stream_wf (CancelPendingAsyncOperations s)"
  by (auto simp: stream_wf_def CancelPendingAsyncOperations_def InvalidateWeakPtrs_def)

lemma stream_wf_delivered: "stream_wf (s\<lparr>stream_delivered := d\<rparr>) = stream_wf s"
  by (simp add: stream_wf_def)

lemma stream_wf_run_stream_task: "stream_wf s \<Longrightarrow> stream_wf (run_stream_task ssl wt s)"
  by (cases "snd wt")
     (simp_all add: run_stream_task_def stream_wf_ReadAsync stream_wf_WriteAllAsync stream_wf_delivered)

lemma stream_wf_run_stream: "stream_wf s \<Longrightarrow> stream_wf (run_stream ssl lag k n s)"
proof (induction n arbitrary: k s)
  case 0
  then show ?case by simp
next
  case (Suc n)
  show ?case
  proof (cases "pending (stream_runner s)")
    case Nil
    with Suc.prems show ?thesis by (simp add: next_task_def)
  next
    case (Cons e rest)
    obtain due wt where e: "e = (due, wt)" by (cases e) auto
    define r where "r = (stream_runner s)\<lparr>clock_ms := max (clock_ms (stream_runner s)) due + lag k, pending := rest\<rparr>"
    have nt: "next_task (lag k) (stream_runner s) = Some (wt, r)"
      by (simp add: next_task_def Cons e r_def)
    have "stream_wf (s\<lparr>stream_runner := r\<rparr>)"
      using Suc.prems Cons by (simp add: stream_wf_def r_def)
    then have "stream_wf (run_stream_task ssl wt (s\<lparr>stream_runner := r\<rparr>))"
      by (rule stream_wf_run_stream_task)
    from Suc.IH [OF this, of "Suc k"] show ?thesis by (simp add: nt)
  qed
qed

lemma stream_wf_fresh: "stream_wf fresh_stream"
  by (simp add: stream_wf_def fresh_stream_def)

lemma stale_after_cancel: "stream_wf s \<Longrightarrow> stale (CancelPendingAsyncOperations s)"
  by (auto simp: stream_wf_def stale_def CancelPendingAsyncOperations_def InvalidateWeakPtrs_def)

lemma stale_run:
  "stale s \<Longrightarrow>
     stream_delivered (run_stream ssl lag k n s) = stream_delivered s \<and>
     ssl_calls (run_stream ssl lag k n s) = ssl_calls s \<and>
     weak_factory (run_stream ssl lag k n s) = weak_factory s \<and>
     stale (run_stream ssl lag k n s)"
proof (induction n arbitrary: k s)
  case 0
  then show ?case by simp
next
  case (Suc n)
  show ?case
  proof (cases "pending (stream_runner s)")
    case Nil
    with Suc.prems show ?thesis by (simp add: next_task_def)
  next
    case (Cons e rest)
    obtain due w t where e: "e = (due, w, t)" by (cases e) auto
    define r where "r = (stream_runner s)\<lparr>clock_ms := max (clock_ms (stream_runner s)) due + lag k, pending := rest\<rparr>"
    have nt: "next_task (lag k) (stream_runner s) = Some ((w, t), r)"
      by (simp add: next_task_def Cons e r_def)
    from Suc.prems Cons e have "w \<noteq> flag (weak_factory s)" by (simp add: stale_def)
    then have dropped: "run_stream_task ssl (w, t) (s\<lparr>stream_runner := r\<rparr>) = s\<lparr>stream_runner := r\<rparr>"
      by (simp add: run_stream_task_def weak_ptr_valid_def)
    have "stale (s\<lparr>stream_runner := r\<rparr>)"
      using Suc.prems Cons by (simp add: stale_def r_def)
    from Suc.IH [OF this, of "Suc k"] show ?thesis
      by (simp add: nt dropped)
  qed
qed

lemma cancel_idempotent:
  "CancelPendingAsyncOperations (CancelPendingAsyncOperations s) = CancelPendingAsyncOperations s"
  by (simp add: CancelPendingAsyncOperations_def InvalidateWeakPtrs_def)

text \<open>
  C2: once \<^verbatim>\<open>CancelPendingAsyncOperations\<close> has been called, the run loop delivers nothing
  more for the stream: whatever was in flight, however many tasks the loop runs, however
  late, and whatever the primitive would answer, the client callbacks that have run stay
  the same, and the primitive is not even called again (no rescheduled retry runs).
  Cancelling twice is cancelling once, and the destructor cancels. The state is any state
  the stream can be in (\<open>stream_wf\<close>); after the cancellation only the run loop acts on
  it.
\<close>

theorem cancelled_stream_delivers_nothing:
  assumes "stream_wf s"
  shows "stream_delivered (run_stream ssl lag k n (CancelPendingAsyncOperations s)) = stream_delivered s \<and>
         ssl_calls (run_stream ssl lag k n (CancelPendingAsyncOperations s)) = ssl_calls s \<and>
         CancelPendingAsyncOperations (CancelPendingAsyncOperations s) = CancelPendingAsyncOperations s \<and>
         SSLStream_destructor s = CancelPendingAsyncOperations s \<and>
         stream_delivered (run_stream ssl lag k n (SSLStream_destructor s)) = stream_delivered s"
proof -
  have "stale (CancelPendingAsyncOperations s)" using assms by (rule stale_after_cancel)
  from stale_run [OF this, of ssl lag k n]
  have "stream_delivered (run_stream ssl lag k n (CancelPendingAsyncOperations s)) = stream_delivered s"
    and "ssl_calls (run_stream ssl lag k n (CancelPendingAsyncOperations s)) = ssl_calls s"
    by (simp_all add: CancelPendingAsyncOperations_def)
  then show ?thesis
    by (simp add: cancel_idempotent SSLStream_destructor_def)
qed

lemma stream_in_flight_value:
  "stream_in_flight = \<lparr>stream_runner = \<lparr>clock_ms = 0,
        pending = [(1000, 0, ReadAsync_task 1000 16 1 2), (1000, 0, WriteAllAsync_task 2004 6 3 4)]\<rparr>,
     weak_factory = \<lparr>flag = 0, handed_out = True\<rparr>, ssl_calls = 2, stream_delivered = []\<rparr>"
  by (simp add: stream_in_flight_def fresh_stream_def ReadAsync_def WriteAllAsync_def ssl_script_def
      Let_def post_weak_def GetWeakPtr_def PostDelayedTask_def SSL_ERROR_WANT_READ_def)

lemma stream_in_flight_completes:
  "stream_delivered (run_stream ssl_script no_lag 0 4 stream_in_flight) = [Read_success 1 5, Write_success 3]"
  by (simp add: stream_in_flight_value numeral_eq_Suc next_task_def run_stream_task_def weak_ptr_valid_def
      ReadAsync_def WriteAllAsync_def ssl_script_def
      Let_def post_weak_def GetWeakPtr_def PostDelayedTask_def)

theorem cancelled_stream_delivers_nothing_witness:
  "stream_wf stream_in_flight \<and>
   length (pending (stream_runner stream_in_flight)) = 2 \<and>
   stream_delivered (run_stream ssl_script no_lag 0 4 stream_in_flight) = [Read_success 1 5, Write_success 3] \<and>
   stream_delivered (run_stream ssl_script no_lag 0 4 (CancelPendingAsyncOperations stream_in_flight)) = [] \<and>
   ssl_calls (run_stream ssl_script no_lag 0 4 (CancelPendingAsyncOperations stream_in_flight)) = 2"
proof -
  have wf: "stream_wf stream_in_flight"
    by (simp add: stream_in_flight_value stream_wf_def)
  from cancelled_stream_delivers_nothing [OF wf, of ssl_script no_lag 0 4] wf stream_in_flight_completes
  show ?thesis by (simp add: stream_in_flight_value)
qed

section \<open>Properties of the connectivity manager\<close>

subsection \<open>GetConnectionState and the notifications\<close>

lemma GetConnectionState_value: "GetConnectionState sys = (Some kOffline, [])"
  by (simp add: GetConnectionState_def GetConnectionState_body_def)

text \<open>
  C7: every call of \<^verbatim>\<open>GetConnectionState\<close> returns Offline, whatever the shell commands
  would answer. The first return ends the function before any command is run (the list of
  commands run is empty), so the results Connected, Failure and Connecting never occur.
\<close>

theorem GetConnectionState_forced_offline:
  "GetConnectionState sys = (Some kOffline, []) \<and>
   fst (GetConnectionState sys) \<notin> {Some kConnected, Some kFailure, Some kConnecting}"
  by (simp add: GetConnectionState_def GetConnectionState_body_def)

lemma NotifyNetworkChanged_delivered:
  "delivered (NotifyNetworkChanged os s) = delivered s @ map (\<lambda>i. Listener_run i False) (callbacks s)"
  by (simp add: NotifyNetworkChanged_def GetConnectionState_value)

lemma notified_flags_append: "notified_flags (xs @ ys) = notified_flags xs @ notified_flags ys"
  by (induction xs rule: notified_flags.induct) simp_all

lemma notified_flags_round: "notified_flags (map (\<lambda>i. Listener_run i b) ls) = map (\<lambda>i. b) ls"
  by (induction ls) simp_all

lemma TryToConnect_delivered:
  "TryToConnect os ssid pw pid until cb s = Returns s' \<Longrightarrow> delivered s' = delivered s"
  by (auto simp: TryToConnect_def TryToConnect_spawn_def TryToConnect_deadline_def ForkCmd_def
      Let_def post_def split: if_splits)

lemma run_task_flags:
  assumes "run_task os t s = Returns s'"
  shows "\<exists>evs. delivered s' = delivered s @ evs \<and> True \<notin> set (notified_flags evs)"
proof (cases t)
  case NotifyNetworkChanged_task
  with assms have "delivered s' = delivered s @ map (\<lambda>i. Listener_run i False) (callbacks s)"
    by (auto simp: run_task_def NotifyNetworkChanged_delivered)
  moreover have "True \<notin> set (notified_flags (map (\<lambda>i. Listener_run i False) (callbacks s)))"
    by (simp add: notified_flags_round)
  ultimately show ?thesis by blast
next
  case (TryToConnect_task ssid pw pid until cb)
  with assms have "delivered s' = delivered s @ []"
    by (auto simp: run_task_def dest: TryToConnect_delivered)
  then show ?thesis by fastforce
next
  case (Run_closure c)
  with assms have "delivered s' = delivered s @ [Closure_run c]"
    by (auto simp: run_task_def)
  then show ?thesis by fastforce
next
  case (Run_stream_callback c)
  with assms have "delivered s' = delivered s @ [Stream_handed c]"
    by (auto simp: run_task_def)
  then show ?thesis by fastforce
qed

lemma run_tasks_flags:
  "run_tasks os k n s = Returns s' \<Longrightarrow>
     \<exists>evs. delivered s' = delivered s @ evs \<and> True \<notin> set (notified_flags evs)"
proof (induction n arbitrary: k s)
  case 0
  then show ?case by simp
next
  case (Suc n)
  show ?case
  proof (cases "next_task (lag_ms (os k)) (task_runner s)")
    case None
    with Suc.prems show ?thesis by simp
  next
    case (Some a)
    obtain t r where a: "a = (t, r)" by (cases a)
    with Some Suc.prems obtain s1 where
      one: "run_task (os k) t (s\<lparr>task_runner := r\<rparr>) = Returns s1"
      and rest: "run_tasks os (Suc k) n s1 = Returns s'"
      by (auto split: outcome.splits)
    from run_task_flags [OF one] obtain e1 where
      e1: "delivered s1 = delivered s @ e1" "True \<notin> set (notified_flags e1)" by auto
    from Suc.IH [OF rest] obtain e2 where
      e2: "delivered s' = delivered s1 @ e2" "True \<notin> set (notified_flags e2)" by auto
    have "delivered s' = delivered s @ (e1 @ e2)" using e1 e2 by simp
    moreover have "True \<notin> set (notified_flags (e1 @ e2))"
      using e1 e2 by (simp add: notified_flags_append)
    ultimately show ?thesis by blast
  qed
qed

text \<open>
  C9: every notification of the connectivity listeners carries the flag false.
  \<^verbatim>\<open>NotifyNetworkChanged\<close> hands each registered listener \<open>False\<close>, because
  \<^verbatim>\<open>GetConnectionState\<close> never returns Connected; and whatever tasks the run loop executes,
  from any state and under any answers of the operating system, no listener event it adds
  carries \<open>True\<close>. The witness is a join that succeeds: the listeners are told false
  before the success continuation runs.
\<close>

theorem notifications_always_false:
  "delivered (NotifyNetworkChanged os s) = delivered s @ map (\<lambda>i. Listener_run i False) (callbacks s) \<and>
   (run_tasks os_at k n st = Returns st' \<longrightarrow>
      (\<exists>evs. delivered st' = delivered st @ evs \<and> True \<notin> set (notified_flags evs)))"
  using NotifyNetworkChanged_delivered run_tasks_flags by blast

lemma home_start: "attempt_run os_home_network ''home'' ''secret'' 1 0 idle_network = Returns home_attempt"
  by (simp add: attempt_run_def ConnectToService_deadline_def TryToConnect_def TryToConnect_spawn_def
      TryToConnect_deadline_def ForkCmd_def Let_def post_def PostDelayedTask_def Time_Now_def
      idle_network_def home_attempt_def os_home_network_def c_str_def)

lemma home_run: "run_tasks os_home_network 1 3 home_attempt = Returns home_joined"
  by (simp add: numeral_3_eq_3 next_task_def run_task_def TryToConnect_def post_def PostDelayedTask_def
      NotifyNetworkChanged_def GetConnectionState_value home_attempt_def home_joined_def os_home_network_def)

theorem notifications_always_false_witness:
  "delivered (NotifyNetworkChanged (os_home_network 0) idle_network) = [Listener_run 7 False, Listener_run 8 False] \<and>
   run_tasks os_home_network 1 3 home_attempt = Returns home_joined \<and>
   (\<exists>evs. delivered home_joined = evs \<and> True \<notin> set (notified_flags evs))"
  using notifications_always_false [of "os_home_network 0" idle_network os_home_network 1 3 home_attempt home_joined]
    home_run
  by (simp add: idle_network_def home_attempt_def)

subsection \<open>ConnectToService while the access point is active\<close>

lemma EnableAccessPoint_started: "EnableAccessPoint os ssid s = Returns s' \<Longrightarrow> hostapd_started s'"
  by (auto simp: EnableAccessPoint_def Let_def elapse_def post_def split: if_splits)

lemma EnableAccessPoint_quiet:
  "EnableAccessPoint (os_quiet 0) ''setup'' idle_network =
     Returns (idle_network\<lparr>hostapd_started := True,
        task_runner := \<lparr>clock_ms = 1000, pending = [(1000, NotifyNetworkChanged_task)]\<rparr>\<rparr>)"
  by (simp add: EnableAccessPoint_def Let_def elapse_def post_def PostDelayedTask_def os_quiet_def
      idle_network_def numeral_eq_Suc)

text \<open>
  C1: what \<^verbatim>\<open>ConnectToService\<close> does when \<^verbatim>\<open>hostapd_started_\<close> is true. The source checks
  \<^verbatim>\<open>CHECK(!hostapd_started_)\<close> before the branch that reports the error ''busy'', so with the
  access point active the process dies in the check: the call does not return, and the
  branch that would return false with the Busy error is never reached. No connect attempt
  is started either. The state is one the program reaches: \<^verbatim>\<open>EnableAccessPoint\<close> leaves it
  behind.
\<close>

theorem ConnectToService_access_point_active:
  "ConnectToService os ssid passphrase on_success error (s\<lparr>hostapd_started := True\<rparr>) = Check_failed \<and>
   (\<exists>s'. EnableAccessPoint (os_quiet 0) ''setup'' idle_network = Returns s' \<and>
      ConnectToService os ssid passphrase on_success error s' = Check_failed)"
  by (simp add: ConnectToService_def EnableAccessPoint_quiet)

subsection \<open>A connect attempt that runs into its deadline\<close>



text \<open>
  With the access point off, \<^verbatim>\<open>ConnectToService\<close> starts the attempt and then flows off its
  end: the properties below are about the attempt it started, not about what the call
  returns.
\<close>

lemma ConnectToService_flows_off_end:
  assumes "\<not> hostapd_started s" "fork_result os \<noteq> 0"
  shows "ConnectToService os ssid pw cb error s = Undefined_behaviour"
  using assms
  by (simp add: ConnectToService_def TryToConnect_def TryToConnect_spawn_def TryToConnect_deadline_def
      ForkCmd_def Let_def)


























subsection \<open>OpenSslSocket\<close>

text \<open>
  C8: when \<^verbatim>\<open>Init\<close> returns false, \<^verbatim>\<open>OpenSslSocket\<close> builds the error tls/tls_init_failed
  in a local variable and returns: it posts no task and runs no callback, so neither the
  error continuation nor the success continuation is ever invoked. When \<^verbatim>\<open>Init\<close> returns
  true, it posts exactly one task, due at once, that hands the stream to the success
  continuation.
\<close>

theorem OpenSslSocket_failure_is_silent:
  "(Init tls host port = Some (Returns (False, slept)) \<longrightarrow>
      (\<exists>s'. OpenSslSocket tls host port success_callback error_callback s =
          Some (Returns (s', [\<lparr>err_domain = ''tls'', err_code = ''tls_init_failed'',
                               err_message = ''Failed to initialize TLS stream.''\<rparr>])) \<and>
        pending (task_runner s') = pending (task_runner s) \<and>
        delivered s' = delivered s)) \<and>
   (Init tls host port = Some (Returns (True, slept)) \<longrightarrow>
      (\<exists>s'. OpenSslSocket tls host port success_callback error_callback s = Some (Returns (s', [])) \<and>
        pending (task_runner s') =
          enqueue (clock_ms (task_runner s) + 1000 * slept, Run_stream_callback success_callback)
            (pending (task_runner s)) \<and>
        delivered s' = delivered s))"
  by (simp add: OpenSslSocket_def elapse_def post_def PostDelayedTask_def Error_AddTo_local_def)

theorem OpenSslSocket_failure_is_silent_witness:
  "OpenSslSocket tls_handshake_fatal ''cloud'' 443 5 6 idle_network =
     Some (Returns (idle_network, [\<lparr>err_domain = ''tls'', err_code = ''tls_init_failed'',
                                     err_message = ''Failed to initialize TLS stream.''\<rparr>])) \<and>
   run_tasks os_quiet 0 3 idle_network = Returns idle_network \<and>
   (\<exists>s'. OpenSslSocket tls_connect_slow ''cloud'' 443 5 6 idle_network = Some (Returns (s', [])) \<and>
      pending (task_runner s') = [(2000, Run_stream_callback 5)] \<and>
      (\<exists>s''. run_tasks os_quiet 0 3 s' = Returns s'' \<and> delivered s'' = [Stream_handed 5]))"
  using OpenSslSocket_failure_is_silent [where tls = tls_handshake_fatal and host = "''cloud''"
      and port = 443 and slept = 0 and success_callback = 5 and error_callback = 6 and s = idle_network]
    OpenSslSocket_failure_is_silent [where tls = tls_connect_slow and host = "''cloud''"
      and port = 443 and slept = 2 and success_callback = 5 and error_callback = 6 and s = idle_network]
    Init_handshake_fatal Init_connect_slow
  by (simp add: OpenSslSocket_def elapse_def post_def PostDelayedTask_def Error_AddTo_local_def
      idle_network_def os_quiet_def numeral_3_eq_3 next_task_def run_task_def)

section \<open>Properties of the stream copier\<close>

lemma chunk_sizes_0: "chunk_sizes 0 b = []"
  by simp

lemma chunk_sizes_pos: "0 < n \<Longrightarrow> 0 < b \<Longrightarrow> chunk_sizes n b = min n b # chunk_sizes (n - min n b) b"
  by (subst chunk_sizes.simps) simp

declare chunk_sizes.simps [simp del]

lemma run_copier_idle: "pending (copier_runner w) = [] \<Longrightarrow> run_copier n w = Returns w"
  by (cases n) (simp_all add: next_task_def)

lemma copy_last_round:
  assumes "pending (copier_runner w) = []"
    and "read_position (streams w (source w)) = length (data (streams w (source w)))"
  shows "\<exists>w'. copy_then_run sc ec (Suc n) w = Returns w' \<and>
     pending (copier_runner w') = [] \<and>
     trace w' = trace w @ [Read_done 0, Read_callback_run sc (size_done w)] \<and>
     size_done w' = size_done w \<and>
     (\<forall>a. data (streams w' a) = data (streams w a)) \<and>
     source w' = source w \<and> destination w' = destination w \<and> buffer w' = buffer w"
  using assms
  by (simp add: copy_then_run_def StreamCopier_Copy_def MemoryStream_Read_def next_task_def
      run_copier_task_def OnSuccessRead_def post_copier_def PostDelayedTask_def Let_def
      run_copier_idle)

lemma copy_round:
  assumes "pending (copier_runner w) = []"
    and "read_position (streams w (source w)) \<le> length (data (streams w (source w)))"
    and "min (length (buffer w)) (length (data (streams w (source w))) - read_position (streams w (source w))) = c"
    and "0 < c"
  shows "copy_then_run sc ec (Suc (Suc n)) w = copy_then_run sc ec n (after_round c w)"
  using assms
  by (cases w) (simp add: copy_then_run_def
      MemoryStream_Read_def next_task_def
      run_copier_task_def OnSuccessRead_def MemoryStream_Write_def post_copier_def PostDelayedTask_def
      Let_def after_round_def StreamCopier_Copy_def)


lemma after_round_fields:
  assumes "source w \<noteq> destination w"
    and "c \<le> length (buffer w)"
    and "c \<le> length (data (streams w (source w))) - read_position (streams w (source w))"
  shows "pending (copier_runner (after_round c w)) = []"
    and "source (after_round c w) = source w"
    and "destination (after_round c w) = destination w"
    and "length (buffer (after_round c w)) = length (buffer w)"
    and "data (streams (after_round c w) (source w)) = data (streams w (source w))"
    and "read_position (streams (after_round c w) (source w)) = read_position (streams w (source w)) + c"
    and "data (streams (after_round c w) (destination w)) =
           data (streams w (destination w))
             @ take c (drop (read_position (streams w (source w))) (data (streams w (source w))))"
    and "size_done (after_round c w) = size_done w + c"
    and "trace (after_round c w) = trace w @ [Read_done c, Write_done c]"
  using assms by (simp_all add: after_round_def Let_def)

lemma copy_events_pos:
  assumes "0 < r" "0 < b"
  shows "copy_events sc r b tot = [Read_done (min b r), Write_done (min b r)] @ copy_events sc (r - min b r) b tot"
  using assms by (simp add: copy_events_def chunk_sizes_pos min.commute)

lemma copy_job:
  assumes "source w \<noteq> destination w"
    and "0 < length (buffer w)"
    and "pending (copier_runner w) = []"
    and "read_position (streams w (source w)) \<le> length (data (streams w (source w)))"
  shows "\<exists>n w'. copy_then_run sc ec n w = Returns w' \<and>
     pending (copier_runner w') = [] \<and>
     trace w' = trace w @ copy_events sc
        (length (data (streams w (source w))) - read_position (streams w (source w)))
        (length (buffer w))
        (size_done w + (length (data (streams w (source w))) - read_position (streams w (source w)))) \<and>
     data (streams w' (destination w)) =
        data (streams w (destination w))
          @ drop (read_position (streams w (source w))) (data (streams w (source w))) \<and>
     size_done w' = size_done w + (length (data (streams w (source w))) - read_position (streams w (source w)))"
  using assms
proof (induction "length (data (streams w (source w))) - read_position (streams w (source w))"
    arbitrary: w rule: less_induct)
  case less
  define N where "N = length (data (streams w (source w)))"
  define p where "p = read_position (streams w (source w))"
  define B where "B = length (buffer w)"
  have pN: "p \<le> N" using less.prems(4) by (simp add: N_def p_def)
  show ?case
  proof (cases "p = N")
    case True
    then have "read_position (streams w (source w)) = length (data (streams w (source w)))"
      by (simp add: N_def p_def)
    from copy_last_round [OF less.prems(3) this, of sc ec 0]
    obtain w' where "copy_then_run sc ec (Suc 0) w = Returns w'" "pending (copier_runner w') = []"
      "trace w' = trace w @ [Read_done 0, Read_callback_run sc (size_done w)]"
      "size_done w' = size_done w" "\<forall>a. data (streams w' a) = data (streams w a)"
      by blast
    moreover have "copy_events sc (N - p) B (size_done w + (N - p))
        = [Read_done 0, Read_callback_run sc (size_done w)]"
      using True by (simp add: copy_events_def chunk_sizes_0)
    ultimately have "copy_then_run sc ec (Suc 0) w = Returns w' \<and>
       pending (copier_runner w') = [] \<and>
       trace w' = trace w @ copy_events sc (N - p) B (size_done w + (N - p)) \<and>
       data (streams w' (destination w)) = data (streams w (destination w)) @ drop p (data (streams w (source w))) \<and>
       size_done w' = size_done w + (N - p)"
      using True by (simp add: N_def)
    then show ?thesis unfolding N_def p_def B_def by blast
  next
    case False
    with pN have lt: "p < N" by simp
    define c where "c = min B (N - p)"
    have c: "0 < c" "c \<le> B" "c \<le> N - p"
      using lt less.prems(2) by (simp_all add: c_def B_def)
    define w2 where "w2 = after_round c w"
    have f: "pending (copier_runner w2) = []" "source w2 = source w" "destination w2 = destination w"
      "length (buffer w2) = B" "data (streams w2 (source w)) = data (streams w (source w))"
      "read_position (streams w2 (source w)) = p + c"
      "data (streams w2 (destination w)) =
         data (streams w (destination w)) @ take c (drop p (data (streams w (source w))))"
      "size_done w2 = size_done w + c"
      "trace w2 = trace w @ [Read_done c, Write_done c]"
      unfolding w2_def p_def B_def
      using after_round_fields [OF less.prems(1), of c] c
      by (simp_all add: B_def N_def p_def)
    have round: "copy_then_run sc ec (Suc (Suc n)) w = copy_then_run sc ec n w2" for n
      unfolding w2_def
      using copy_round [OF less.prems(3,4), of c sc ec n] c
      by (simp add: c_def B_def N_def p_def)
    have smaller: "length (data (streams w2 (source w2))) - read_position (streams w2 (source w2))
        < length (data (streams w (source w))) - read_position (streams w (source w))"
      using f c lt by (simp add: N_def p_def)
    have prems2: "source w2 \<noteq> destination w2" "0 < length (buffer w2)"
      "read_position (streams w2 (source w2)) \<le> length (data (streams w2 (source w2)))"
      using f c less.prems(1,2) by (simp_all add: N_def p_def B_def)
    from less.hyps [OF smaller prems2(1,2) f(1) prems2(3)]
    obtain n w' where r: "copy_then_run sc ec n w2 = Returns w'" "pending (copier_runner w') = []"
      "trace w' = trace w2 @ copy_events sc
          (length (data (streams w2 (source w2))) - read_position (streams w2 (source w2)))
          (length (buffer w2))
          (size_done w2 + (length (data (streams w2 (source w2))) - read_position (streams w2 (source w2))))"
      "data (streams w' (destination w2)) =
          data (streams w2 (destination w2))
            @ drop (read_position (streams w2 (source w2))) (data (streams w2 (source w2)))"
      "size_done w' = size_done w2 + (length (data (streams w2 (source w2))) - read_position (streams w2 (source w2)))"
      by blast
    have tr: "trace w' = trace w @ copy_events sc (N - p) B (size_done w + (N - p))"
    proof -
      have ce: "copy_events sc (N - p) B (size_done w + (N - p))
          = [Read_done c, Write_done c] @ copy_events sc (N - p - c) B (size_done w + (N - p))"
        using copy_events_pos [of "N - p" B sc "size_done w + (N - p)"] lt less.prems(2)
        by (simp add: c_def B_def)
      have e: "size_done w2 + (N - (p + c)) = size_done w + (N - p)"
        using c f(8) by simp
      have "trace w' = trace w2 @ copy_events sc (N - (p + c)) B (size_done w2 + (N - (p + c)))"
        using r(3) f(2,4,5,6) by (simp add: N_def [symmetric])
      also have "\<dots> = trace w2 @ copy_events sc (N - p - c) B (size_done w + (N - p))"
        by (simp only: e diff_diff_left)
      also have "\<dots> = trace w @ copy_events sc (N - p) B (size_done w + (N - p))"
        by (simp only: ce f(9) append_assoc)
      finally show ?thesis .
    qed
    have dt: "data (streams w' (destination w)) =
        data (streams w (destination w)) @ drop p (data (streams w (source w)))"
    proof -
      have "take c (drop p xs) @ drop (p + c) xs = drop p xs" for xs :: "8 word list"
        by (metis add.commute append_take_drop_id drop_drop)
      then show ?thesis using r(4) f by simp
    qed
    have sd: "size_done w' = size_done w + (N - p)"
      using r(5) f c by (simp add: N_def)
    have "copy_then_run sc ec (Suc (Suc n)) w = Returns w'" using round r(1) by simp
    with r(2) tr dt sd show ?thesis unfolding N_def p_def B_def by blast
  qed
qed

lemma length_chunk_sizes: "0 < b \<Longrightarrow> length (chunk_sizes n b) = (n + b - 1) div b"
proof (induction n rule: less_induct)
  case (less n)
  show ?case
  proof (cases "n = 0")
    case True
    with less.prems show ?thesis by (simp add: chunk_sizes_0)
  next
    case False
    then have "n - min n b < n" using less.prems by (simp add: min_def)
    from less.IH [OF this less.prems]
    have "length (chunk_sizes n b) = Suc ((n - min n b + b - 1) div b)"
      using False less.prems by (simp add: chunk_sizes_pos)
    also have "\<dots> = (n + b - 1) div b"
    proof (cases "n \<le> b")
      case True
      have "n + b - 1 = b + (n - 1)" using False by simp
      moreover have "(b + (n - 1)) div b = Suc ((n - 1) div b)"
        using less.prems by (simp add: div_add_self1)
      moreover have "(n - 1) div b = 0" using True False by simp
      ultimately have "(n + b - 1) div b = Suc 0" by simp
      moreover have "n - min n b + b - 1 = b - 1" using True by (simp add: min_def)
      moreover have "(b - 1) div b = 0" using less.prems by simp
      ultimately show ?thesis by simp
    next
      case False
      then have "n - min n b + b - 1 = n - 1" by (simp add: min_def)
      moreover have "n + b - 1 = (n - 1) + b" using False by simp
      moreover have "((n - 1) + b) div b = Suc ((n - 1) div b)"
        using less.prems by (simp add: div_add_self2)
      ultimately show ?thesis by simp
    qed
    finally show ?thesis .
  qed
qed

lemma chunk_sizes_nonzero: "0 \<notin> set (chunk_sizes n b)"
proof (induction n b rule: chunk_sizes.induct)
  case (1 n b)
  show ?case
  proof (cases "n = 0 \<or> b = 0")
    case True
    then show ?thesis by (subst chunk_sizes.simps) simp
  next
    case False
    with 1 show ?thesis by (subst chunk_sizes.simps) (simp add: min_def)
  qed
qed

lemma nonzero_reads_rounds:
  "0 \<notin> set cs \<Longrightarrow>
     nonzero_reads (concat (map (\<lambda>c. [Read_done c, Write_done c]) cs) @ rest) = length cs + nonzero_reads rest"
  by (induction cs) auto

lemma nonzero_reads_copy_events:
  "0 < b \<Longrightarrow> nonzero_reads (copy_events sc n b t) = (n + b - 1) div b"
  using nonzero_reads_rounds [OF chunk_sizes_nonzero, of n b "[Read_done 0, Read_callback_run sc t]"]
  by (simp add: copy_events_def length_chunk_sizes)

text \<open>
  C6: a copy job over a source of \<open>N\<close> bytes with a buffer of \<open>B > 0\<close> bytes, started on
  a fresh copier (nothing read yet, nothing pending, a destination that is not the
  source). The run loop comes to rest, and the events of the job are, in this order: for
  each chunk a read of its size followed by the write of the same size, then a read of 0
  bytes, then the success callback with \<open>N\<close>. No chunk is empty, and the reads that
  return at least one byte number \<open>(N + B - 1) div B\<close>, which is \<open>N / B\<close> rounded up. The
  destination ends up with the source's bytes appended, and the running total is \<open>N\<close>.
\<close>

theorem copy_job_reads_and_total:
  assumes "source w \<noteq> destination w"
    and "0 < length (buffer w)"
    and "pending (copier_runner w) = []"
    and "read_position (streams w (source w)) = 0"
    and "size_done w = 0"
  shows "\<exists>n w0 w'. StreamCopier_Copy sc ec w = Returns w0 \<and> run_copier n w0 = Returns w' \<and>
     pending (copier_runner w') = [] \<and>
     trace w' = trace w @ copy_events sc (length (data (streams w (source w)))) (length (buffer w))
                           (length (data (streams w (source w)))) \<and>
     nonzero_reads (copy_events sc (length (data (streams w (source w)))) (length (buffer w))
                      (length (data (streams w (source w)))))
       = (length (data (streams w (source w))) + length (buffer w) - 1) div length (buffer w) \<and>
     0 \<notin> set (chunk_sizes (length (data (streams w (source w)))) (length (buffer w))) \<and>
     data (streams w' (destination w)) = data (streams w (destination w)) @ data (streams w (source w)) \<and>
     size_done w' = length (data (streams w (source w)))"
proof -
  have "read_position (streams w (source w)) \<le> length (data (streams w (source w)))"
    using assms(4) by simp
  from copy_job [OF assms(1,2,3) this, of sc ec]
  obtain n w' where r: "copy_then_run sc ec n w = Returns w'" "pending (copier_runner w') = []"
    "trace w' = trace w @ copy_events sc (length (data (streams w (source w)))) (length (buffer w))
                           (length (data (streams w (source w))))"
    "data (streams w' (destination w)) = data (streams w (destination w)) @ data (streams w (source w))"
    "size_done w' = length (data (streams w (source w)))"
    using assms(4,5) by auto
  from r(1) obtain w0 where "StreamCopier_Copy sc ec w = Returns w0" "run_copier n w0 = Returns w'"
    by (auto simp: copy_then_run_def split: outcome.splits)
  with r(2-5) nonzero_reads_copy_events [OF assms(2)] chunk_sizes_nonzero
  show ?thesis by blast
qed

theorem copy_job_reads_and_total_witness:
  "\<exists>n w0 w'. StreamCopier_Copy 9 10 copy_1000 = Returns w0 \<and> run_copier n w0 = Returns w' \<and>
     pending (copier_runner w') = [] \<and>
     trace w' = [Read_done 1000, Write_done 1000, Read_done 0, Read_callback_run 9 1000] \<and>
     nonzero_reads (trace w') = 1 \<and>
     data (streams w' 2) = replicate 1000 7 \<and>
     size_done w' = 1000"
  using copy_job_reads_and_total [of copy_1000 9 10]
  by (simp add: copy_1000_def copy_events_def chunk_sizes_pos chunk_sizes_0) fastforce

end
